theory Spec2Isabelle
  imports Complex_Main
begin

section \<open>Scalars and the raymath value types\<close>

text \<open>
  The C sources compute with \<^verbatim>\<open>float\<close>.  This development takes the scalars to be the
  real numbers: arithmetic is exact, every comparison is the order of the reals, and
  \<^verbatim>\<open>fmin\<close>, \<^verbatim>\<open>fmax\<close>, \<^verbatim>\<open>fabs\<close>, \<^verbatim>\<open>sqrtf\<close>, \<^verbatim>\<open>sinf\<close> and \<^verbatim>\<open>cosf\<close> are \<^term>\<open>min\<close>, \<^term>\<open>max\<close>,
  \<^term>\<open>abs\<close>, \<^term>\<open>sqrt\<close>, \<^term>\<open>sin\<close> and \<^term>\<open>cos\<close>.  Rounding, infinities and NaN are outside
  the model.  The colliders at which the last section evaluates the code have small integer
  coordinates, and where an angle enters, the statements use of its sine and cosine only what
  rounding to single precision keeps: a sign, a strict bound with room to spare, the entry of
  the matrix that holds the value, or (for the angle \<open>pi/4\<close>) that the two agree.

  \<^verbatim>\<open>Vector2\<close>, \<^verbatim>\<open>Vector3\<close> and \<^verbatim>\<open>Matrix\<close> are the structs of raylib.  The fields of the
  vectors carry a prefix (\<open>v2x\<close> is \<^verbatim>\<open>Vector2.x\<close>, \<open>v3x\<close> is \<^verbatim>\<open>Vector3.x\<close>), the fields of the
  matrix keep their names.  \<^verbatim>\<open>Matrix\<close> is column-major: \<open>m0 .. m3\<close> is the first column,
  \<open>m12 .. m14\<close> the translation part, \<open>m3, m7, m11, m15\<close> the bottom row.
\<close>

record Vector2 =
  v2x :: real
  v2y :: real

record Vector3 =
  v3x :: real
  v3y :: real
  v3z :: real

record Matrix =
  m0 :: real
  m4 :: real
  m8 :: real
  m12 :: real
  m1 :: real
  m5 :: real
  m9 :: real
  m13 :: real
  m2 :: real
  m6 :: real
  m10 :: real
  m14 :: real
  m3 :: real
  m7 :: real
  m11 :: real
  m15 :: real

section \<open>The functions of raymath.h that collider.c calls\<close>

text \<open>
  raymath.h belongs to raylib, not to this repository; the definitions below follow its
  function bodies statement by statement, over the reals.
\<close>

definition Vector3Zero :: Vector3 where
  "Vector3Zero = \<lparr>v3x = 0, v3y = 0, v3z = 0\<rparr>"

definition Vector3Scale :: "Vector3 \<Rightarrow> real \<Rightarrow> Vector3" where
  "Vector3Scale v scalar = \<lparr>v3x = v3x v * scalar, v3y = v3y v * scalar, v3z = v3z v * scalar\<rparr>"

definition Vector3DotProduct :: "Vector3 \<Rightarrow> Vector3 \<Rightarrow> real" where
  "Vector3DotProduct v1 v2 = v3x v1 * v3x v2 + v3y v1 * v3y v2 + v3z v1 * v3z v2"

definition Vector3CrossProduct :: "Vector3 \<Rightarrow> Vector3 \<Rightarrow> Vector3" where
  "Vector3CrossProduct v1 v2 =
     \<lparr>v3x = v3y v1 * v3z v2 - v3z v1 * v3y v2,
      v3y = v3z v1 * v3x v2 - v3x v1 * v3z v2,
      v3z = v3x v1 * v3y v2 - v3y v1 * v3x v2\<rparr>"

text \<open>A vector of length zero is returned as it is.\<close>

definition Vector3Normalize :: "Vector3 \<Rightarrow> Vector3" where
  "Vector3Normalize v =
     (let length = sqrt (v3x v * v3x v + v3y v * v3y v + v3z v * v3z v) in
      if length \<noteq> 0
      then (let ilength = 1 / length in
            \<lparr>v3x = v3x v * ilength, v3y = v3y v * ilength, v3z = v3z v * ilength\<rparr>)
      else v)"

definition EPSILON :: real where
  "EPSILON = 1 / 1000000"

definition Vector3Equals :: "Vector3 \<Rightarrow> Vector3 \<Rightarrow> bool" where
  "Vector3Equals p q \<longleftrightarrow>
     \<bar>v3x p - v3x q\<bar> \<le> EPSILON * max 1 (max \<bar>v3x p\<bar> \<bar>v3x q\<bar>) \<and>
     \<bar>v3y p - v3y q\<bar> \<le> EPSILON * max 1 (max \<bar>v3y p\<bar> \<bar>v3y q\<bar>) \<and>
     \<bar>v3z p - v3z q\<bar> \<le> EPSILON * max 1 (max \<bar>v3z p\<bar> \<bar>v3z q\<bar>)"

definition Vector3Transform :: "Vector3 \<Rightarrow> Matrix \<Rightarrow> Vector3" where
  "Vector3Transform v mat =
     \<lparr>v3x = m0 mat * v3x v + m4 mat * v3y v + m8 mat * v3z v + m12 mat,
      v3y = m1 mat * v3x v + m5 mat * v3y v + m9 mat * v3z v + m13 mat,
      v3z = m2 mat * v3x v + m6 mat * v3y v + m10 mat * v3z v + m14 mat\<rparr>"

definition MatrixIdentity :: Matrix where
  "MatrixIdentity =
     \<lparr>m0 = 1, m4 = 0, m8 = 0, m12 = 0,
      m1 = 0, m5 = 1, m9 = 0, m13 = 0,
      m2 = 0, m6 = 0, m10 = 1, m14 = 0,
      m3 = 0, m7 = 0, m11 = 0, m15 = 1\<rparr>"

definition MatrixTranslate :: "real \<Rightarrow> real \<Rightarrow> real \<Rightarrow> Matrix" where
  "MatrixTranslate tx ty tz =
     \<lparr>m0 = 1, m4 = 0, m8 = 0, m12 = tx,
      m1 = 0, m5 = 1, m9 = 0, m13 = ty,
      m2 = 0, m6 = 0, m10 = 1, m14 = tz,
      m3 = 0, m7 = 0, m11 = 0, m15 = 1\<rparr>"

definition MatrixMultiply :: "Matrix \<Rightarrow> Matrix \<Rightarrow> Matrix" where
  "MatrixMultiply left right =
     \<lparr>m0 = m0 left * m0 right + m1 left * m4 right + m2 left * m8 right + m3 left * m12 right,
      m4 = m4 left * m0 right + m5 left * m4 right + m6 left * m8 right + m7 left * m12 right,
      m8 = m8 left * m0 right + m9 left * m4 right + m10 left * m8 right + m11 left * m12 right,
      m12 = m12 left * m0 right + m13 left * m4 right + m14 left * m8 right + m15 left * m12 right,
      m1 = m0 left * m1 right + m1 left * m5 right + m2 left * m9 right + m3 left * m13 right,
      m5 = m4 left * m1 right + m5 left * m5 right + m6 left * m9 right + m7 left * m13 right,
      m9 = m8 left * m1 right + m9 left * m5 right + m10 left * m9 right + m11 left * m13 right,
      m13 = m12 left * m1 right + m13 left * m5 right + m14 left * m9 right + m15 left * m13 right,
      m2 = m0 left * m2 right + m1 left * m6 right + m2 left * m10 right + m3 left * m14 right,
      m6 = m4 left * m2 right + m5 left * m6 right + m6 left * m10 right + m7 left * m14 right,
      m10 = m8 left * m2 right + m9 left * m6 right + m10 left * m10 right + m11 left * m14 right,
      m14 = m12 left * m2 right + m13 left * m6 right + m14 left * m10 right + m15 left * m14 right,
      m3 = m0 left * m3 right + m1 left * m7 right + m2 left * m11 right + m3 left * m15 right,
      m7 = m4 left * m3 right + m5 left * m7 right + m6 left * m11 right + m7 left * m15 right,
      m11 = m8 left * m3 right + m9 left * m7 right + m10 left * m11 right + m11 left * m15 right,
      m15 = m12 left * m3 right + m13 left * m7 right + m14 left * m11 right + m15 left * m15 right\<rparr>"

text \<open>
  The axis is normalised unless its squared length is 1 or 0; an axis of length zero
  is used as it is.
\<close>

definition MatrixRotate :: "Vector3 \<Rightarrow> real \<Rightarrow> Matrix" where
  "MatrixRotate axis angle =
     (let lengthSquared = v3x axis * v3x axis + v3y axis * v3y axis + v3z axis * v3z axis;
          ilength = (if lengthSquared \<noteq> 1 \<and> lengthSquared \<noteq> 0
                     then 1 / sqrt lengthSquared else 1);
          x = v3x axis * ilength;
          y = v3y axis * ilength;
          z = v3z axis * ilength;
          sinres = sin angle;
          cosres = cos angle;
          t = 1 - cosres
      in \<lparr>m0 = x * x * t + cosres, m4 = x * y * t - z * sinres, m8 = x * z * t + y * sinres, m12 = 0,
          m1 = y * x * t + z * sinres, m5 = y * y * t + cosres, m9 = y * z * t - x * sinres, m13 = 0,
          m2 = z * x * t - y * sinres, m6 = z * y * t + x * sinres, m10 = z * z * t + cosres, m14 = 0,
          m3 = 0, m7 = 0, m11 = 0, m15 = 1\<rparr>)"

section \<open>collider.h: the collider\<close>

definition COLLIDER_VERTEX_COUNT :: nat where
  "COLLIDER_VERTEX_COUNT = 8"

text \<open>
  The two vertex arrays of the struct are lists; in C both hold exactly
  \<^term>\<open>COLLIDER_VERTEX_COUNT\<close> entries, and every loop of collider.c indexes them below that
  bound.
\<close>

record Collider =
  vertLocal :: "Vector3 list"
  vertGlobal :: "Vector3 list"
  matRotate :: Matrix
  matTranslate :: Matrix

section \<open>collider.c: transformations\<close>

definition UpdateColliderGlobalVerts :: "Collider \<Rightarrow> Collider" where
  "UpdateColliderGlobalVerts col =
     (let matTemp = MatrixMultiply (matRotate col) (matTranslate col) in
      fold (\<lambda>i c. c\<lparr>vertGlobal := (vertGlobal c)[i := Vector3Transform (vertLocal c ! i) matTemp]\<rparr>)
        [0..<COLLIDER_VERTEX_COUNT] col)"

definition CreateCollider :: "Vector3 \<Rightarrow> Vector3 \<Rightarrow> Collider" where
  "CreateCollider min3 max3 =
     UpdateColliderGlobalVerts
       \<lparr>vertLocal =
          [\<lparr>v3x = v3x min3, v3y = v3y min3, v3z = v3z min3\<rparr>,
           \<lparr>v3x = v3x min3, v3y = v3y min3, v3z = v3z max3\<rparr>,
           \<lparr>v3x = v3x min3, v3y = v3y max3, v3z = v3z min3\<rparr>,
           \<lparr>v3x = v3x min3, v3y = v3y max3, v3z = v3z max3\<rparr>,
           \<lparr>v3x = v3x max3, v3y = v3y min3, v3z = v3z min3\<rparr>,
           \<lparr>v3x = v3x max3, v3y = v3y min3, v3z = v3z max3\<rparr>,
           \<lparr>v3x = v3x max3, v3y = v3y max3, v3z = v3z min3\<rparr>,
           \<lparr>v3x = v3x max3, v3y = v3y max3, v3z = v3z max3\<rparr>],
        vertGlobal = replicate COLLIDER_VERTEX_COUNT Vector3Zero,
        matRotate = MatrixIdentity,
        matTranslate = MatrixIdentity\<rparr>"

definition SetColliderRotation :: "Collider \<Rightarrow> Vector3 \<Rightarrow> real \<Rightarrow> Collider" where
  "SetColliderRotation col axis ang =
     UpdateColliderGlobalVerts (col\<lparr>matRotate := MatrixRotate axis ang\<rparr>)"

definition AddColliderRotation :: "Collider \<Rightarrow> Vector3 \<Rightarrow> real \<Rightarrow> Collider" where
  "AddColliderRotation col axis ang =
     (let matTemp = MatrixRotate axis ang in
      UpdateColliderGlobalVerts (col\<lparr>matRotate := MatrixMultiply (matRotate col) matTemp\<rparr>))"

definition SetColliderTranslation :: "Collider \<Rightarrow> Vector3 \<Rightarrow> Collider" where
  "SetColliderTranslation col pos =
     UpdateColliderGlobalVerts (col\<lparr>matTranslate := MatrixTranslate (v3x pos) (v3y pos) (v3z pos)\<rparr>)"

definition AddColliderTranslation :: "Collider \<Rightarrow> Vector3 \<Rightarrow> Collider" where
  "AddColliderTranslation col pos =
     (let matTemp = MatrixTranslate (v3x pos) (v3y pos) (v3z pos) in
      UpdateColliderGlobalVerts (col\<lparr>matTranslate := MatrixMultiply (matTranslate col) matTemp\<rparr>))"

definition GetColliderTransform :: "Collider \<Rightarrow> Matrix" where
  "GetColliderTransform col = MatrixMultiply (matRotate col) (matTranslate col)"

section \<open>collider.c: collision detection\<close>

text \<open>
  \<^verbatim>\<open>GetCollisionVectors\<close> fills the caller's buffer \<open>vec\<close> of 15 vectors: entries 0 to 5
  directly, entries 6 to 14 in the nested loop, whose counter \<open>i\<close> runs beside the buffer.
\<close>

definition GetCollisionVectors :: "Collider \<Rightarrow> Collider \<Rightarrow> Vector3 list \<Rightarrow> Vector3 list" where
  "GetCollisionVectors a b vec0 =
     (let x = \<lparr>v3x = 1, v3y = 0, v3z = 0\<rparr>;
          y = \<lparr>v3x = 0, v3y = 1, v3z = 0\<rparr>;
          z = \<lparr>v3x = 0, v3y = 0, v3z = 1\<rparr>;
          vec = vec0[0 := Vector3Transform x (matRotate a)];
          vec = vec[1 := Vector3Transform y (matRotate a)];
          vec = vec[2 := Vector3Transform z (matRotate a)];
          vec = vec[3 := Vector3Transform x (matRotate b)];
          vec = vec[4 := Vector3Transform y (matRotate b)];
          vec = vec[5 := Vector3Transform z (matRotate b)]
      in fst (fold (\<lambda>j. fold (\<lambda>k (vec, i).
                (vec[i := (if Vector3Equals (vec ! j) (vec ! k) then x
                           else Vector3Normalize (Vector3CrossProduct (vec ! j) (vec ! k)))],
                 i + 1)) [3..<6]) [0..<3] (vec, 6::nat)))"

definition GetColliderProjectionBounds :: "Collider \<Rightarrow> Vector3 \<Rightarrow> Vector2" where
  "GetColliderProjectionBounds col vec =
     (let proj = Vector3DotProduct (vertGlobal col ! 0) vec in
      fold (\<lambda>i bounds.
              (let proj = Vector3DotProduct (vertGlobal col ! i) vec in
               \<lparr>v2x = min (v2x bounds) proj, v2y = max (v2y bounds) proj\<rparr>))
        [1..<COLLIDER_VERTEX_COUNT] \<lparr>v2x = proj, v2y = proj\<rparr>)"

definition BoundsOverlap :: "Vector2 \<Rightarrow> Vector2 \<Rightarrow> bool" where
  "BoundsOverlap a b =
     (if v2x a > v2y b then False
      else if v2x b > v2y a then False
      else True)"

definition GetOverlap :: "Vector2 \<Rightarrow> Vector2 \<Rightarrow> real" where
  "GetOverlap a b =
     (if v2x a > v2y b then 0
      else if v2x b > v2y a then 0
      else if v2x a > v2x b then v2y b - v2x a
      else v2x b - v2y a)"

text \<open>
  The local buffer \<^verbatim>\<open>testVec[15]\<close> is not initialised in C; \<^verbatim>\<open>GetCollisionVectors\<close>
  overwrites all of it, so its first content (here zero vectors) does not matter
  (lemma \<open>GetCollisionVectors_buffer\<close>).
\<close>

definition testVec_fresh :: "Vector3 list" where
  "testVec_fresh = replicate 15 Vector3Zero"

text \<open>The loop of \<^verbatim>\<open>TestColliderPair\<close>, from index \<open>i\<close> on; it leaves at the first
  axis whose projections do not overlap.\<close>

function TestColliderPair_loop :: "Collider \<Rightarrow> Collider \<Rightarrow> Vector3 list \<Rightarrow> nat \<Rightarrow> bool" where
  "TestColliderPair_loop a b testVec i =
     (if i < 15
      then (let apro = GetColliderProjectionBounds a (testVec ! i);
                bpro = GetColliderProjectionBounds b (testVec ! i)
            in if \<not> BoundsOverlap apro bpro then False
               else TestColliderPair_loop a b testVec (i + 1))
      else True)"
  by pat_completeness auto
termination
  by (relation "measure (\<lambda>(a, b, testVec, i). 15 - i)") auto

declare TestColliderPair_loop.simps [simp del]

definition TestColliderPair :: "Collider \<Rightarrow> Collider \<Rightarrow> bool" where
  "TestColliderPair a b =
     (let testVec = GetCollisionVectors a b testVec_fresh in
      TestColliderPair_loop a b testVec 0)"

text \<open>The loop of \<^verbatim>\<open>GetCollisionCorrection\<close>, from index \<open>i\<close> on, with the running
  \<open>overlapMin\<close> and \<open>overlapDir\<close>.\<close>

function GetCollisionCorrection_loop ::
  "Collider \<Rightarrow> Collider \<Rightarrow> Vector3 list \<Rightarrow> nat \<Rightarrow> real \<Rightarrow> Vector3 \<Rightarrow> Vector3" where
  "GetCollisionCorrection_loop a b testVec i overlapMin overlapDir =
     (if i < 15
      then (let apro = GetColliderProjectionBounds a (testVec ! i);
                bpro = GetColliderProjectionBounds b (testVec ! i);
                overlap = GetOverlap apro bpro
            in if overlap = 0 then Vector3Zero
               else if \<bar>overlap\<bar> < \<bar>overlapMin\<bar>
               then GetCollisionCorrection_loop a b testVec (i + 1) overlap (testVec ! i)
               else GetCollisionCorrection_loop a b testVec (i + 1) overlapMin overlapDir)
      else Vector3Scale overlapDir overlapMin)"
  by pat_completeness auto
termination
  by (relation "measure (\<lambda>(a, b, testVec, i, overlapMin, overlapDir). 15 - i)") auto

declare GetCollisionCorrection_loop.simps [simp del]

definition GetCollisionCorrection :: "Collider \<Rightarrow> Collider \<Rightarrow> Vector3" where
  "GetCollisionCorrection a b =
     (let overlapMin = 100;
          overlapDir = Vector3Zero;
          testVec = GetCollisionVectors a b testVec_fresh
      in GetCollisionCorrection_loop a b testVec 0 overlapMin overlapDir)"

section \<open>Notions used in the statements\<close>

text \<open>
  The signed depth that \<^verbatim>\<open>GetCollisionCorrection\<close> computes on an axis, and the spec's
  wording of disjoint projection intervals: one box's maximum is strictly less than the
  other's minimum, in either direction.
\<close>

definition axis_overlap :: "Collider \<Rightarrow> Collider \<Rightarrow> Vector3 \<Rightarrow> real" where
  "axis_overlap a b v =
     GetOverlap (GetColliderProjectionBounds a v) (GetColliderProjectionBounds b v)"

definition intervals_disjoint :: "Vector2 \<Rightarrow> Vector2 \<Rightarrow> bool" where
  "intervals_disjoint p q \<longleftrightarrow> v2y p < v2x q \<or> v2y q < v2x p"

definition axis_disjoint :: "Collider \<Rightarrow> Collider \<Rightarrow> Vector3 \<Rightarrow> bool" where
  "axis_disjoint a b v \<longleftrightarrow>
     intervals_disjoint (GetColliderProjectionBounds a v) (GetColliderProjectionBounds b v)"

text \<open>
  The spec's enumeration of the candidate axes: the three face axes of \<open>a\<close>, the three of
  \<open>b\<close>, and for every pair the axis that the body of the nested loop computes.
\<close>

definition face_axes :: "Matrix \<Rightarrow> Vector3 list" where
  "face_axes m =
     [Vector3Transform \<lparr>v3x = 1, v3y = 0, v3z = 0\<rparr> m,
      Vector3Transform \<lparr>v3x = 0, v3y = 1, v3z = 0\<rparr> m,
      Vector3Transform \<lparr>v3x = 0, v3y = 0, v3z = 1\<rparr> m]"

definition cross_axis :: "Vector3 \<Rightarrow> Vector3 \<Rightarrow> Vector3" where
  "cross_axis vj vk =
     (if Vector3Equals vj vk then \<lparr>v3x = 1, v3y = 0, v3z = 0\<rparr>
      else Vector3Normalize (Vector3CrossProduct vj vk))"

definition candidate_axes :: "Collider \<Rightarrow> Collider \<Rightarrow> Vector3 list" where
  "candidate_axes a b =
     face_axes (matRotate a) @ face_axes (matRotate b) @
     concat (map (\<lambda>vj. map (\<lambda>vk. cross_axis vj vk) (face_axes (matRotate b)))
                 (face_axes (matRotate a)))"

text \<open>
  The colliders of the examples are axis-aligned boxes: created from two corners, then
  placed by \<^verbatim>\<open>SetColliderTranslation\<close>, as example.c does.
\<close>

abbreviation V3 :: "real \<Rightarrow> real \<Rightarrow> real \<Rightarrow> Vector3" where
  "V3 x y z \<equiv> \<lparr>v3x = x, v3y = y, v3z = z\<rparr>"

definition aabb :: "Vector3 \<Rightarrow> Vector3 \<Rightarrow> Vector3 \<Rightarrow> Collider" where
  "aabb min3 max3 pos = SetColliderTranslation (CreateCollider min3 max3) pos"

definition box2 :: "Vector3 \<Rightarrow> Collider" where
  "box2 pos = aabb (V3 0 0 0) (V3 2 2 2) pos"

definition box200 :: "Vector3 \<Rightarrow> Collider" where
  "box200 pos = aabb (V3 0 0 0) (V3 200 200 200) pos"

text \<open>The 15 axes that \<^verbatim>\<open>GetCollisionVectors\<close> produces for two colliders whose rotation is
  the identity.\<close>

definition aligned_axes :: "Vector3 list" where
  "aligned_axes =
    [V3 1 0 0, V3 0 1 0, V3 0 0 1, V3 1 0 0, V3 0 1 0, V3 0 0 1,
     V3 1 0 0, V3 0 0 1, V3 0 (- 1) 0, V3 0 0 (- 1), V3 1 0 0, V3 1 0 0,
     V3 0 1 0, V3 (- 1) 0 0, V3 1 0 0]"

text \<open>\<^verbatim>\<open>Vector3Negate\<close> of raymath.h, used to relate the axes of \<open>(a, b)\<close> and \<open>(b, a)\<close>.\<close>

definition Vector3Negate :: "Vector3 \<Rightarrow> Vector3" where
  "Vector3Negate v = \<lparr>v3x = - v3x v, v3y = - v3y v, v3z = - v3z v\<rparr>"

text \<open>
  The calls that move a collider, and the collider that \<^verbatim>\<open>CreateCollider\<close> followed by a
  sequence of such calls yields.
\<close>

datatype call =
    SetRotation Vector3 real
  | AddRotation Vector3 real
  | SetTranslation Vector3
  | AddTranslation Vector3

fun apply_call :: "Collider \<Rightarrow> call \<Rightarrow> Collider" where
  "apply_call col (SetRotation axis ang) = SetColliderRotation col axis ang"
| "apply_call col (AddRotation axis ang) = AddColliderRotation col axis ang"
| "apply_call col (SetTranslation pos) = SetColliderTranslation col pos"
| "apply_call col (AddTranslation pos) = AddColliderTranslation col pos"

definition run_calls :: "Vector3 \<Rightarrow> Vector3 \<Rightarrow> call list \<Rightarrow> Collider" where
  "run_calls min3 max3 calls = foldl apply_call (CreateCollider min3 max3) calls"

text \<open>
  What the transformations maintain: the bottom row of the rotation matrix is (0,0,0,1),
  both vertex arrays hold 8 vectors, and every world vertex is the local vertex moved by the
  rotation and then by the translation.
\<close>

definition bottom_row_ok :: "Matrix \<Rightarrow> bool" where
  "bottom_row_ok M \<longleftrightarrow> m3 M = 0 \<and> m7 M = 0 \<and> m11 M = 0 \<and> m15 M = 1"

definition Collider_wf :: "Collider \<Rightarrow> bool" where
  "Collider_wf c \<longleftrightarrow>
     length (vertLocal c) = COLLIDER_VERTEX_COUNT \<and> length (vertGlobal c) = COLLIDER_VERTEX_COUNT"

definition verts_consistent :: "Collider \<Rightarrow> bool" where
  "verts_consistent c \<longleftrightarrow>
     vertGlobal c =
       map (\<lambda>v. Vector3Transform (Vector3Transform v (matRotate c)) (matTranslate c)) (vertLocal c)"


text \<open>
  The colliders of the example for opposite face axes: the cube from (-1,-1,-1) to (1,1,1),
  turned about the y axis.
\<close>

definition turned_cube :: "real \<Rightarrow> Collider" where
  "turned_cube ang =
     SetColliderRotation (CreateCollider (V3 (- 1) (- 1) (- 1)) (V3 1 1 1)) (V3 0 1 0) ang"

text \<open>
  The colliders of the second example for exact touch: a cube with an edge on the z axis, and
  a plate (a box of no extent along its local y axis) turned about the z axis by the angle
  1/2; \<open>plate_axes\<close> are their 15 axes.
\<close>

definition corner_cube :: Collider where
  "corner_cube = CreateCollider (V3 (- 2) 0 0) (V3 0 2 2)"

definition plate :: Collider where
  "plate = SetColliderRotation (CreateCollider (V3 (- 1) 0 0) (V3 1 0 2)) (V3 0 0 1) (1 / 2)"

definition plate_axes :: "Vector3 list" where
  "plate_axes =
    [V3 1 0 0, V3 0 1 0, V3 0 0 1,
     V3 (cos (1 / 2)) (sin (1 / 2)) 0, V3 (- sin (1 / 2)) (cos (1 / 2)) 0, V3 0 0 1,
     V3 0 0 1, V3 0 0 1, V3 0 (- 1) 0, V3 0 0 (- 1), V3 0 0 1, V3 1 0 0,
     V3 (- sin (1 / 2)) (cos (1 / 2)) 0, V3 (- cos (1 / 2)) (- sin (1 / 2)) 0, V3 1 0 0]"




section \<open>Basic facts\<close>

subsection \<open>Lists of a fixed length\<close>

lemma upt36: "[3..<6] = [3,4,5]" by (simp add: upt_rec)

lemma upt03: "[0..<3] = [0,1,2::nat]" by (simp add: upt_rec)

lemma upt08: "[0..<8] = [0,1,2,3,4,5,6,7::nat]" by (simp add: upt_rec)

lemma upt18: "[1..<8] = [1,2,3,4,5,6,7::nat]" by (simp add: upt_rec)

lemma list_of_length_15:
  assumes "length vec0 = 15"
  obtains v0 v1 v2 v3 v4 v5 v6 v7 v8 v9 v10 v11 v12 v13 v14 where
    "vec0 = [v0, v1, v2, v3, v4, v5, v6, v7, v8, v9, v10, v11, v12, v13, v14]"
proof -
  have "vec0 = map (\<lambda>i. vec0 ! i) [0..<15]"
    using assms by (metis map_nth)
  also have "[0..<15] = [0,1,2,3,4,5,6,7,8,9,10,11,12,13,14::nat]"
    by (simp add: upt_rec)
  finally show ?thesis using that by simp
qed

lemma list_of_length_8:
  assumes "length xs = 8"
  obtains p0 p1 p2 p3 p4 p5 p6 p7 where "xs = [p0, p1, p2, p3, p4, p5, p6, p7]"
proof -
  have "xs = map (\<lambda>i. xs ! i) [0..<8]"
    using assms by (metis map_nth)
  then show ?thesis using that by (simp add: upt08)
qed

lemma nth8:
  "[p0, p1, p2, p3, p4, p5, p6, p7] ! 0 = p0"
  "[p0, p1, p2, p3, p4, p5, p6, p7] ! 1 = p1"
  "[p0, p1, p2, p3, p4, p5, p6, p7] ! 2 = p2"
  "[p0, p1, p2, p3, p4, p5, p6, p7] ! 3 = p3"
  "[p0, p1, p2, p3, p4, p5, p6, p7] ! 4 = p4"
  "[p0, p1, p2, p3, p4, p5, p6, p7] ! 5 = p5"
  "[p0, p1, p2, p3, p4, p5, p6, p7] ! 6 = p6"
  "[p0, p1, p2, p3, p4, p5, p6, p7] ! 7 = p7"
  by simp_all

lemma all_less_15:
  "(\<forall>k<15. P k) \<longleftrightarrow>
     P 0 \<and> P 1 \<and> P 2 \<and> P 3 \<and> P 4 \<and> P 5 \<and> P 6 \<and> P 7 \<and> P 8 \<and> P 9 \<and> P 10 \<and> P 11 \<and>
     P 12 \<and> P 13 \<and> P (14::nat)"
proof -
  have "(\<forall>k<15. P k) \<longleftrightarrow> (\<forall>k<Suc (Suc (Suc (Suc (Suc (Suc (Suc (Suc (Suc (Suc (Suc (Suc (Suc (Suc (Suc 0)))))))))))))). P k)"
    by (simp add: eval_nat_numeral)
  also have "\<dots> \<longleftrightarrow> P 0 \<and> P 1 \<and> P 2 \<and> P 3 \<and> P 4 \<and> P 5 \<and> P 6 \<and> P 7 \<and> P 8 \<and> P 9 \<and> P 10 \<and> P 11 \<and>
     P 12 \<and> P 13 \<and> P (14::nat)"
    unfolding All_less_Suc by (simp add: eval_nat_numeral conj_ac)
  finally show ?thesis .
qed

lemma map_nth_eq: "map f xs = ys \<Longrightarrow> k < length ys \<Longrightarrow> f (xs ! k) = ys ! k"
  by auto

lemma first_min_index_exists:
  fixes f :: "nat \<Rightarrow> real"
  assumes "0 < n"
  shows "\<exists>j<n. (\<forall>k<n. f j \<le> f k) \<and> (\<forall>k<j. f j < f k)"
proof -
  define m where "m = Min (f ` {..<n})"
  have fin: "finite (f ` {..<n})" and ne: "f ` {..<n} \<noteq> {}"
    using assms by auto
  have "m \<in> f ` {..<n}"
    unfolding m_def using fin ne by (rule Min_in)
  then obtain j0 where j0: "j0 < n" "f j0 = m" by auto
  have le: "\<And>k. k < n \<Longrightarrow> m \<le> f k"
    unfolding m_def using fin by (simp add: Min_le)
  define j where "j = (LEAST j. j < n \<and> f j = m)"
  have j: "j < n \<and> f j = m"
    unfolding j_def by (rule LeastI [of _ j0]) (use j0 in simp)
  have first: "\<And>k. k < j \<Longrightarrow> \<not> (k < n \<and> f k = m)"
    unfolding j_def by (rule not_less_Least)
  show ?thesis
  proof (intro exI conjI allI impI)
    show "j < n" using j by simp
    show "f j \<le> f k" if "k < n" for k using le [OF that] j by simp
    show "f j < f k" if "k < j" for k
    proof -
      have "k < n" using that j by simp
      then have "m \<le> f k" "f k \<noteq> m" using le first [OF that] by auto
      then show ?thesis using j by simp
    qed
  qed
qed

subsection \<open>The buffer of axes\<close>

lemma GetCollisionVectors_buffer:
  assumes "length vec0 = 15"
  shows "GetCollisionVectors a b vec0 = candidate_axes a b"
proof -
  obtain v0 v1 v2 v3 v4 v5 v6 v7 v8 v9 v10 v11 v12 v13 v14 where
    "vec0 = [v0, v1, v2, v3, v4, v5, v6, v7, v8, v9, v10, v11, v12, v13, v14]"
    using assms by (rule list_of_length_15)
  then show ?thesis
    unfolding GetCollisionVectors_def Let_def cross_axis_def[symmetric] candidate_axes_def face_axes_def
    by (simp add: upt36 upt03)
qed

lemma GetCollisionVectors_fresh: "GetCollisionVectors a b testVec_fresh = candidate_axes a b"
  by (rule GetCollisionVectors_buffer) (simp add: testVec_fresh_def)

lemma length_candidate_axes: "length (candidate_axes a b) = 15"
  by (simp add: candidate_axes_def face_axes_def)

subsection \<open>World vertices and what the transformations maintain\<close>

lemma UpdateColliderGlobalVerts_map:
  assumes "length (vertLocal col) = 8" "length (vertGlobal col) = 8"
  shows "UpdateColliderGlobalVerts col =
    col\<lparr>vertGlobal := map (\<lambda>v. Vector3Transform v (MatrixMultiply (matRotate col) (matTranslate col)))
                          (vertLocal col)\<rparr>"
proof -
  obtain p0 p1 p2 p3 p4 p5 p6 p7 where l: "vertLocal col = [p0, p1, p2, p3, p4, p5, p6, p7]"
    using assms(1) by (rule list_of_length_8)
  obtain q0 q1 q2 q3 q4 q5 q6 q7 where g: "vertGlobal col = [q0, q1, q2, q3, q4, q5, q6, q7]"
    using assms(2) by (rule list_of_length_8)
  show ?thesis
    by (simp add: UpdateColliderGlobalVerts_def COLLIDER_VERTEX_COUNT_def upt08 l g Let_def)
qed

lemma UpdateColliderGlobalVerts_wf:
  assumes "Collider_wf col"
  shows "UpdateColliderGlobalVerts col =
    col\<lparr>vertGlobal := map (\<lambda>v. Vector3Transform v (MatrixMultiply (matRotate col) (matTranslate col)))
                          (vertLocal col)\<rparr>"
  using assms by (intro UpdateColliderGlobalVerts_map) (simp_all add: Collider_wf_def COLLIDER_VERTEX_COUNT_def)

lemma CreateCollider_eval:
  "CreateCollider (V3 x0 y0 z0) (V3 x1 y1 z1) =
    \<lparr>vertLocal = [V3 x0 y0 z0, V3 x0 y0 z1, V3 x0 y1 z0, V3 x0 y1 z1,
                  V3 x1 y0 z0, V3 x1 y0 z1, V3 x1 y1 z0, V3 x1 y1 z1],
     vertGlobal = [V3 x0 y0 z0, V3 x0 y0 z1, V3 x0 y1 z0, V3 x0 y1 z1,
                   V3 x1 y0 z0, V3 x1 y0 z1, V3 x1 y1 z0, V3 x1 y1 z1],
     matRotate = MatrixIdentity, matTranslate = MatrixIdentity\<rparr>"
  unfolding CreateCollider_def
  by (subst UpdateColliderGlobalVerts_map)
     (simp_all add: COLLIDER_VERTEX_COUNT_def Vector3Transform_def MatrixMultiply_def MatrixIdentity_def)

lemma Vector3Transform_MatrixMultiply:
  assumes "bottom_row_ok R"
  shows "Vector3Transform v (MatrixMultiply R T) = Vector3Transform (Vector3Transform v R) T"
  using assms
  by (simp add: bottom_row_ok_def Vector3Transform_def MatrixMultiply_def algebra_simps)

lemma bottom_row_ok_MatrixIdentity: "bottom_row_ok MatrixIdentity"
  by (simp add: bottom_row_ok_def MatrixIdentity_def)

lemma bottom_row_ok_MatrixRotate: "bottom_row_ok (MatrixRotate axis ang)"
  by (simp add: bottom_row_ok_def MatrixRotate_def Let_def)

lemma bottom_row_ok_MatrixTranslate: "bottom_row_ok (MatrixTranslate tx ty tz)"
  by (simp add: bottom_row_ok_def MatrixTranslate_def)

lemma bottom_row_ok_MatrixMultiply:
  "bottom_row_ok A \<Longrightarrow> bottom_row_ok B \<Longrightarrow> bottom_row_ok (MatrixMultiply A B)"
  by (simp add: bottom_row_ok_def MatrixMultiply_def)

lemma Update_invariant:
  assumes "Collider_wf col" "bottom_row_ok (matRotate col)"
  shows "Collider_wf (UpdateColliderGlobalVerts col)"
    and "verts_consistent (UpdateColliderGlobalVerts col)"
    and "matRotate (UpdateColliderGlobalVerts col) = matRotate col"
    and "matTranslate (UpdateColliderGlobalVerts col) = matTranslate col"
    and "vertLocal (UpdateColliderGlobalVerts col) = vertLocal col"
  using assms
  by (simp_all add: UpdateColliderGlobalVerts_wf Collider_wf_def verts_consistent_def
      Vector3Transform_MatrixMultiply)

lemma CreateCollider_invariant:
  "Collider_wf (CreateCollider min3 max3)"
  "bottom_row_ok (matRotate (CreateCollider min3 max3))"
  "verts_consistent (CreateCollider min3 max3)"
proof -
  let ?c = "\<lparr>vertLocal =
          [\<lparr>v3x = v3x min3, v3y = v3y min3, v3z = v3z min3\<rparr>,
           \<lparr>v3x = v3x min3, v3y = v3y min3, v3z = v3z max3\<rparr>,
           \<lparr>v3x = v3x min3, v3y = v3y max3, v3z = v3z min3\<rparr>,
           \<lparr>v3x = v3x min3, v3y = v3y max3, v3z = v3z max3\<rparr>,
           \<lparr>v3x = v3x max3, v3y = v3y min3, v3z = v3z min3\<rparr>,
           \<lparr>v3x = v3x max3, v3y = v3y min3, v3z = v3z max3\<rparr>,
           \<lparr>v3x = v3x max3, v3y = v3y max3, v3z = v3z min3\<rparr>,
           \<lparr>v3x = v3x max3, v3y = v3y max3, v3z = v3z max3\<rparr>],
        vertGlobal = replicate COLLIDER_VERTEX_COUNT Vector3Zero,
        matRotate = MatrixIdentity,
        matTranslate = MatrixIdentity\<rparr>"
  have wf: "Collider_wf ?c"
    by (simp add: Collider_wf_def COLLIDER_VERTEX_COUNT_def)
  have br: "bottom_row_ok (matRotate ?c)"
    by (simp add: bottom_row_ok_MatrixIdentity)
  show "Collider_wf (CreateCollider min3 max3)"
    "bottom_row_ok (matRotate (CreateCollider min3 max3))"
    "verts_consistent (CreateCollider min3 max3)"
    unfolding CreateCollider_def
    using Update_invariant [OF wf br] br by simp_all
qed

lemma apply_call_invariant:
  assumes "Collider_wf col" "bottom_row_ok (matRotate col)"
  shows "Collider_wf (apply_call col c) \<and> bottom_row_ok (matRotate (apply_call col c)) \<and>
         verts_consistent (apply_call col c)"
proof (cases c)
  case (SetRotation axis ang)
  have wf: "Collider_wf (col\<lparr>matRotate := MatrixRotate axis ang\<rparr>)"
    and br: "bottom_row_ok (matRotate (col\<lparr>matRotate := MatrixRotate axis ang\<rparr>))"
    using assms by (simp_all add: Collider_wf_def bottom_row_ok_MatrixRotate)
  show ?thesis
    using Update_invariant [OF wf br] br
    by (simp add: SetRotation SetColliderRotation_def)
next
  case (AddRotation axis ang)
  have wf: "Collider_wf (col\<lparr>matRotate := MatrixMultiply (matRotate col) (MatrixRotate axis ang)\<rparr>)"
    and br: "bottom_row_ok (matRotate (col\<lparr>matRotate := MatrixMultiply (matRotate col) (MatrixRotate axis ang)\<rparr>))"
    using assms by (simp_all add: Collider_wf_def bottom_row_ok_MatrixRotate bottom_row_ok_MatrixMultiply)
  show ?thesis
    using Update_invariant [OF wf br] br
    by (simp add: AddRotation AddColliderRotation_def Let_def)
next
  case (SetTranslation pos)
  have wf: "Collider_wf (col\<lparr>matTranslate := MatrixTranslate (v3x pos) (v3y pos) (v3z pos)\<rparr>)"
    and br: "bottom_row_ok (matRotate (col\<lparr>matTranslate := MatrixTranslate (v3x pos) (v3y pos) (v3z pos)\<rparr>))"
    using assms by (simp_all add: Collider_wf_def)
  show ?thesis
    using Update_invariant [OF wf br] br
    by (simp add: SetTranslation SetColliderTranslation_def)
next
  case (AddTranslation pos)
  have wf: "Collider_wf (col\<lparr>matTranslate := MatrixMultiply (matTranslate col) (MatrixTranslate (v3x pos) (v3y pos) (v3z pos))\<rparr>)"
    and br: "bottom_row_ok (matRotate (col\<lparr>matTranslate := MatrixMultiply (matTranslate col) (MatrixTranslate (v3x pos) (v3y pos) (v3z pos))\<rparr>))"
    using assms by (simp_all add: Collider_wf_def)
  show ?thesis
    using Update_invariant [OF wf br] br
    by (simp add: AddTranslation AddColliderTranslation_def Let_def)
qed

lemma foldl_apply_call_invariant:
  assumes "Collider_wf col" "bottom_row_ok (matRotate col)" "verts_consistent col"
  shows "Collider_wf (foldl apply_call col calls) \<and>
         bottom_row_ok (matRotate (foldl apply_call col calls)) \<and>
         verts_consistent (foldl apply_call col calls)"
  using assms
proof (induction calls arbitrary: col)
  case Nil
  then show ?case by simp
next
  case (Cons c calls)
  have step: "Collider_wf (apply_call col c) \<and> bottom_row_ok (matRotate (apply_call col c)) \<and>
         verts_consistent (apply_call col c)"
    using Cons.prems by (intro apply_call_invariant) simp_all
  then show ?case
    using Cons.IH [of "apply_call col c"] by simp
qed

subsection \<open>Projection intervals\<close>

lemma GetColliderProjectionBounds_8:
  assumes "vertGlobal col = [p0, p1, p2, p3, p4, p5, p6, p7]"
  shows "GetColliderProjectionBounds col v =
    (let d = (\<lambda>p. Vector3DotProduct p v) in
     \<lparr>v2x = min (min (min (min (min (min (min (d p0) (d p1)) (d p2)) (d p3)) (d p4)) (d p5)) (d p6)) (d p7),
      v2y = max (max (max (max (max (max (max (d p0) (d p1)) (d p2)) (d p3)) (d p4)) (d p5)) (d p6)) (d p7)\<rparr>)"
  unfolding GetColliderProjectionBounds_def COLLIDER_VERTEX_COUNT_def Let_def assms upt18
  by (simp only: fold_simps o_apply id_apply nth8 Vector2.select_convs)

lemma GetColliderProjectionBounds_lit:
  "GetColliderProjectionBounds
     \<lparr>vertLocal = l, vertGlobal = [p0, p1, p2, p3, p4, p5, p6, p7], matRotate = r, matTranslate = t\<rparr> v =
    (let d = (\<lambda>p. Vector3DotProduct p v) in
     \<lparr>v2x = min (min (min (min (min (min (min (d p0) (d p1)) (d p2)) (d p3)) (d p4)) (d p5)) (d p6)) (d p7),
      v2y = max (max (max (max (max (max (max (d p0) (d p1)) (d p2)) (d p3)) (d p4)) (d p5)) (d p6)) (d p7)\<rparr>)"
  by (rule GetColliderProjectionBounds_8) simp

lemma bounds_fold_ordered:
  "lo \<le> hi \<Longrightarrow>
   v2x (fold (\<lambda>i bounds. \<lparr>v2x = min (v2x bounds) (h i), v2y = max (v2y bounds) (h i)\<rparr>) xs
          \<lparr>v2x = lo, v2y = hi\<rparr>)
   \<le> v2y (fold (\<lambda>i bounds. \<lparr>v2x = min (v2x bounds) (h i), v2y = max (v2y bounds) (h i)\<rparr>) xs
          \<lparr>v2x = lo, v2y = hi\<rparr>)"
proof (induction xs arbitrary: lo hi)
  case Nil
  then show ?case by simp
next
  case (Cons i xs)
  have "min lo (h i) \<le> max hi (h i)"
    using Cons.prems by (simp add: min_def max_def)
  then show ?case
    using Cons.IH [of "min lo (h i)" "max hi (h i)"] by simp
qed

lemma GetColliderProjectionBounds_ordered:
  "v2x (GetColliderProjectionBounds col v) \<le> v2y (GetColliderProjectionBounds col v)"
  unfolding GetColliderProjectionBounds_def Let_def
  by (rule bounds_fold_ordered) simp

lemma GetColliderProjectionBounds_zero_axis:
  "GetColliderProjectionBounds col Vector3Zero = \<lparr>v2x = 0, v2y = 0\<rparr>"
  unfolding GetColliderProjectionBounds_def COLLIDER_VERTEX_COUNT_def upt18 Let_def
  by (simp add: Vector3DotProduct_def Vector3Zero_def)

lemma BoundsOverlap_iff: "BoundsOverlap p q \<longleftrightarrow> \<not> intervals_disjoint p q"
  by (auto simp: BoundsOverlap_def intervals_disjoint_def)

lemma GetOverlap_disjoint: "intervals_disjoint p q \<Longrightarrow> GetOverlap p q = 0"
  by (auto simp: GetOverlap_def intervals_disjoint_def)

lemma GetOverlap_sign:
  assumes "GetOverlap p q \<noteq> 0"
  shows "\<not> intervals_disjoint p q"
    and "v2x p > v2x q \<Longrightarrow> GetOverlap p q = v2y q - v2x p \<and> 0 < v2y q - v2x p"
    and "\<not> v2x p > v2x q \<Longrightarrow> GetOverlap p q = v2x q - v2y p \<and> v2x q - v2y p < 0"
  using assms by (auto simp: GetOverlap_def intervals_disjoint_def split: if_splits)

lemma GetOverlap_touch:
  assumes "v2x p \<le> v2y p" "v2x q \<le> v2y q"
    and "v2y p = v2x q \<or> (v2y q = v2x p \<and> (v2x q < v2y q \<or> v2x p = v2y p))"
  shows "GetOverlap p q = 0" and "\<not> intervals_disjoint p q"
  using assms by (auto simp: GetOverlap_def intervals_disjoint_def)

lemma axis_overlap_zero_axis: "axis_overlap a b Vector3Zero = 0"
  by (simp add: axis_overlap_def GetColliderProjectionBounds_zero_axis GetOverlap_def)

lemma Vector3Scale_zero: "Vector3Scale v 0 = Vector3Zero"
  by (simp add: Vector3Scale_def Vector3Zero_def)

subsection \<open>The loop of TestColliderPair\<close>

lemma TestColliderPair_loop_iff:
  "TestColliderPair_loop a b vec i \<longleftrightarrow> (\<forall>k. i \<le> k \<and> k < 15 \<longrightarrow> \<not> axis_disjoint a b (vec ! k))"
proof (induction a b vec i rule: TestColliderPair_loop.induct)
  case (1 a b testVec i)
  show ?case
  proof (cases "i < 15")
    case False
    then show ?thesis by (auto simp add: TestColliderPair_loop.simps [of a b testVec i])
  next
    case True
    show ?thesis
    proof (cases "axis_disjoint a b (testVec ! i)")
      case dis: True
      then have "\<not> TestColliderPair_loop a b testVec i"
        using True
        by (simp add: TestColliderPair_loop.simps [of a b testVec i] BoundsOverlap_iff axis_disjoint_def)
      moreover have "\<not> (\<forall>k. i \<le> k \<and> k < 15 \<longrightarrow> \<not> axis_disjoint a b (testVec ! k))"
        using True dis by blast
      ultimately show ?thesis by blast
    next
      case ov: False
      then have ov': "BoundsOverlap (GetColliderProjectionBounds a (testVec ! i))
                       (GetColliderProjectionBounds b (testVec ! i))"
        by (simp add: BoundsOverlap_iff axis_disjoint_def)
      have "TestColliderPair_loop a b testVec i = TestColliderPair_loop a b testVec (i + 1)"
        using True ov' by (simp add: TestColliderPair_loop.simps [of a b testVec i])
      also have "\<dots> \<longleftrightarrow> (\<forall>k. i + 1 \<le> k \<and> k < 15 \<longrightarrow> \<not> axis_disjoint a b (testVec ! k))"
        using "1.IH" [OF True refl refl] ov' by simp
      also have "\<dots> \<longleftrightarrow> (\<forall>k. i \<le> k \<and> k < 15 \<longrightarrow> \<not> axis_disjoint a b (testVec ! k))"
      proof -
        have "\<And>k. i \<le> k \<longleftrightarrow> k = i \<or> i + 1 \<le> k" by auto
        then show ?thesis using ov by auto
      qed
      finally show ?thesis .
    qed
  qed
qed

lemma TestColliderPair_iff_candidate_axes:
  "TestColliderPair a b \<longleftrightarrow> (\<forall>v\<in>set (candidate_axes a b). \<not> axis_disjoint a b v)"
proof -
  have "TestColliderPair a b \<longleftrightarrow> (\<forall>k<length (candidate_axes a b). \<not> axis_disjoint a b (candidate_axes a b ! k))"
    by (simp add: TestColliderPair_def TestColliderPair_loop_iff GetCollisionVectors_fresh
        length_candidate_axes)
  then show ?thesis by (simp add: all_set_conv_all_nth)
qed

lemma TestColliderPair_nonzero_overlaps:
  assumes "\<forall>k<15. axis_overlap a b (GetCollisionVectors a b testVec_fresh ! k) \<noteq> 0"
  shows "TestColliderPair a b"
proof -
  have "\<not> axis_disjoint a b (GetCollisionVectors a b testVec_fresh ! k)" if "k < 15" for k
    using assms that GetOverlap_disjoint
    unfolding axis_disjoint_def axis_overlap_def by blast
  then show ?thesis
    by (simp add: TestColliderPair_def TestColliderPair_loop_iff)
qed

subsection \<open>The loop of GetCollisionCorrection\<close>

lemma corr_loop_step:
  assumes "i < 15"
  shows "GetCollisionCorrection_loop a b vec i m d =
    (if axis_overlap a b (vec ! i) = 0 then Vector3Zero
     else if \<bar>axis_overlap a b (vec ! i)\<bar> < \<bar>m\<bar>
     then GetCollisionCorrection_loop a b vec (i + 1) (axis_overlap a b (vec ! i)) (vec ! i)
     else GetCollisionCorrection_loop a b vec (i + 1) m d)"
  using assms
  by (simp add: GetCollisionCorrection_loop.simps [of a b vec i m d] axis_overlap_def Let_def)

lemma corr_loop_end:
  "\<not> i < 15 \<Longrightarrow> GetCollisionCorrection_loop a b vec i m d = Vector3Scale d m"
  by (simp add: GetCollisionCorrection_loop.simps [of a b vec i m d])

lemma corr_loop_zero:
  "i \<le> k \<Longrightarrow> k < 15 \<Longrightarrow> axis_overlap a b (vec ! k) = 0 \<Longrightarrow>
   GetCollisionCorrection_loop a b vec i m d = Vector3Zero"
proof (induction "k - i" arbitrary: i m d)
  case 0
  then have "i = k" by simp
  with 0 show ?case by (simp add: corr_loop_step)
next
  case (Suc n)
  then have lt: "i < 15" and le: "i + 1 \<le> k" and n: "n = k - (i + 1)" by auto
  show ?case
    using Suc.hyps(1) [OF n le Suc.prems(2,3)] lt
    by (simp add: corr_loop_step)
qed

lemma corr_loop_keep:
  "(\<forall>k. i \<le> k \<and> k < 15 \<longrightarrow> axis_overlap a b (vec ! k) \<noteq> 0 \<and> \<bar>m\<bar> \<le> \<bar>axis_overlap a b (vec ! k)\<bar>) \<Longrightarrow>
   GetCollisionCorrection_loop a b vec i m d = Vector3Scale d m"
proof (induction "15 - i" arbitrary: i)
  case 0
  then show ?case by (simp add: corr_loop_end)
next
  case (Suc n)
  then have lt: "i < 15" and n: "n = 15 - (i + 1)" by auto
  have here: "axis_overlap a b (vec ! i) \<noteq> 0" "\<not> \<bar>axis_overlap a b (vec ! i)\<bar> < \<bar>m\<bar>"
    using Suc.prems lt by (auto simp: not_less)
  have rest: "\<forall>k. i + 1 \<le> k \<and> k < 15 \<longrightarrow>
      axis_overlap a b (vec ! k) \<noteq> 0 \<and> \<bar>m\<bar> \<le> \<bar>axis_overlap a b (vec ! k)\<bar>"
    using Suc.prems by auto
  show ?case
    using Suc.hyps(1) [OF n rest] here lt by (simp add: corr_loop_step)
qed

lemma corr_loop_first_min:
  assumes "i \<le> j" "j < 15"
    and "\<forall>k. i \<le> k \<and> k < 15 \<longrightarrow> axis_overlap a b (vec ! k) \<noteq> 0"
    and "\<bar>axis_overlap a b (vec ! j)\<bar> < \<bar>m\<bar>"
    and "\<forall>k. i \<le> k \<and> k < 15 \<longrightarrow> \<bar>axis_overlap a b (vec ! j)\<bar> \<le> \<bar>axis_overlap a b (vec ! k)\<bar>"
    and "\<forall>k. i \<le> k \<and> k < j \<longrightarrow> \<bar>axis_overlap a b (vec ! j)\<bar> < \<bar>axis_overlap a b (vec ! k)\<bar>"
  shows "GetCollisionCorrection_loop a b vec i m d =
         Vector3Scale (vec ! j) (axis_overlap a b (vec ! j))"
  using assms
proof (induction "j - i" arbitrary: i m d)
  case 0
  then have ij: "i = j" by simp
  have keep: "GetCollisionCorrection_loop a b vec (j + 1) (axis_overlap a b (vec ! j)) (vec ! j) =
      Vector3Scale (vec ! j) (axis_overlap a b (vec ! j))"
    using "0.prems" ij by (intro corr_loop_keep) auto
  show ?case
    using "0.prems" keep ij by (simp add: corr_loop_step)
next
  case (Suc n)
  then have lt: "i < 15" and le: "i + 1 \<le> j" and n: "n = j - (i + 1)" and ij: "i < j" by auto
  have nz: "axis_overlap a b (vec ! i) \<noteq> 0" using Suc.prems lt by auto
  have less: "\<bar>axis_overlap a b (vec ! j)\<bar> < \<bar>axis_overlap a b (vec ! i)\<bar>"
    using Suc.prems(6) ij by auto
  have p3: "\<forall>k. i + 1 \<le> k \<and> k < 15 \<longrightarrow> axis_overlap a b (vec ! k) \<noteq> 0"
    using Suc.prems(3) by auto
  have p5: "\<forall>k. i + 1 \<le> k \<and> k < 15 \<longrightarrow> \<bar>axis_overlap a b (vec ! j)\<bar> \<le> \<bar>axis_overlap a b (vec ! k)\<bar>"
    using Suc.prems(5) by auto
  have p6: "\<forall>k. i + 1 \<le> k \<and> k < j \<longrightarrow> \<bar>axis_overlap a b (vec ! j)\<bar> < \<bar>axis_overlap a b (vec ! k)\<bar>"
    using Suc.prems(6) by auto
  show ?case
  proof (cases "\<bar>axis_overlap a b (vec ! i)\<bar> < \<bar>m\<bar>")
    case True
    show ?thesis
      using Suc.hyps(1) [OF n le Suc.prems(2) p3 less p5 p6] True nz lt
      by (simp add: corr_loop_step)
  next
    case False
    show ?thesis
      using Suc.hyps(1) [OF n le Suc.prems(2) p3 Suc.prems(4) p5 p6] False nz lt
      by (simp add: corr_loop_step)
  qed
qed

lemma GetCollisionCorrection_zero_overlap:
  assumes "k < 15" "axis_overlap a b (GetCollisionVectors a b testVec_fresh ! k) = 0"
  shows "GetCollisionCorrection a b = Vector3Zero"
  unfolding GetCollisionCorrection_def Let_def
  by (rule corr_loop_zero [OF _ assms]) simp

lemma GetCollisionCorrection_first_min:
  assumes "j < 15"
    and "\<bar>axis_overlap a b (GetCollisionVectors a b testVec_fresh ! j)\<bar> < 100"
    and "\<forall>k<15. \<bar>axis_overlap a b (GetCollisionVectors a b testVec_fresh ! j)\<bar>
                 \<le> \<bar>axis_overlap a b (GetCollisionVectors a b testVec_fresh ! k)\<bar>"
    and "\<forall>k<j. \<bar>axis_overlap a b (GetCollisionVectors a b testVec_fresh ! j)\<bar>
                 < \<bar>axis_overlap a b (GetCollisionVectors a b testVec_fresh ! k)\<bar>"
  shows "GetCollisionCorrection a b =
     Vector3Scale (GetCollisionVectors a b testVec_fresh ! j)
       (axis_overlap a b (GetCollisionVectors a b testVec_fresh ! j))"
proof (cases "axis_overlap a b (GetCollisionVectors a b testVec_fresh ! j) = 0")
  case True
  then show ?thesis
    using GetCollisionCorrection_zero_overlap [OF assms(1) True] by (simp add: Vector3Scale_zero)
next
  case False
  have nz: "\<forall>k. 0 \<le> k \<and> k < 15 \<longrightarrow> axis_overlap a b (GetCollisionVectors a b testVec_fresh ! k) \<noteq> 0"
  proof (intro allI impI)
    fix k :: nat assume "0 \<le> k \<and> k < 15"
    then have "\<bar>axis_overlap a b (GetCollisionVectors a b testVec_fresh ! j)\<bar>
                 \<le> \<bar>axis_overlap a b (GetCollisionVectors a b testVec_fresh ! k)\<bar>"
      using assms(3) by blast
    with False show "axis_overlap a b (GetCollisionVectors a b testVec_fresh ! k) \<noteq> 0" by auto
  qed
  show ?thesis
    unfolding GetCollisionCorrection_def Let_def
    using assms nz by (intro corr_loop_first_min) auto
qed

lemma GetCollisionCorrection_none_below_100:
  assumes "\<forall>k<15. 100 \<le> \<bar>axis_overlap a b (GetCollisionVectors a b testVec_fresh ! k)\<bar>"
  shows "GetCollisionCorrection a b = Vector3Zero"
proof -
  have "GetCollisionCorrection a b = Vector3Scale Vector3Zero 100"
    unfolding GetCollisionCorrection_def Let_def
    using assms by (intro corr_loop_keep) auto
  then show ?thesis by (simp add: Vector3Scale_def Vector3Zero_def)
qed

lemma GetCollisionCorrection_nonzero_chosen:
  assumes "GetCollisionCorrection a b \<noteq> Vector3Zero"
  shows "\<exists>j<15.
     axis_overlap a b (GetCollisionVectors a b testVec_fresh ! j) \<noteq> 0 \<and>
     \<bar>axis_overlap a b (GetCollisionVectors a b testVec_fresh ! j)\<bar> < 100 \<and>
     (\<forall>k<15. \<bar>axis_overlap a b (GetCollisionVectors a b testVec_fresh ! j)\<bar>
                 \<le> \<bar>axis_overlap a b (GetCollisionVectors a b testVec_fresh ! k)\<bar>) \<and>
     (\<forall>k<j. \<bar>axis_overlap a b (GetCollisionVectors a b testVec_fresh ! j)\<bar>
                 < \<bar>axis_overlap a b (GetCollisionVectors a b testVec_fresh ! k)\<bar>) \<and>
     GetCollisionCorrection a b =
       Vector3Scale (GetCollisionVectors a b testVec_fresh ! j)
         (axis_overlap a b (GetCollisionVectors a b testVec_fresh ! j))"
proof -
  let ?ov = "\<lambda>k. axis_overlap a b (GetCollisionVectors a b testVec_fresh ! k)"
  obtain j where j: "j < 15" "\<forall>k<15. \<bar>?ov j\<bar> \<le> \<bar>?ov k\<bar>" "\<forall>k<j. \<bar>?ov j\<bar> < \<bar>?ov k\<bar>"
    using first_min_index_exists [of 15 "\<lambda>k. \<bar>?ov k\<bar>"] by auto
  have nz: "?ov j \<noteq> 0"
    using GetCollisionCorrection_zero_overlap [OF j(1)] assms by blast
  have small: "\<bar>?ov j\<bar> < 100"
  proof (rule ccontr)
    assume "\<not> \<bar>?ov j\<bar> < 100"
    then have "\<forall>k<15. 100 \<le> \<bar>?ov k\<bar>" using j(2) by force
    then show False using GetCollisionCorrection_none_below_100 assms by blast
  qed
  show ?thesis
    using j nz small GetCollisionCorrection_first_min [OF j(1) small j(2) j(3)] by blast
qed

text \<open>
  The result in terms of the first index \<open>j\<close> at which the minimal absolute overlap is
  attained: the axes come in the order of the enumeration, and the result is axis \<open>j\<close> scaled
  by its overlap when that is below the initial running minimum 100, the zero vector
  otherwise.
\<close>

lemma GetCollisionCorrection_by_first_minimum:
  assumes "j < 15"
    and "\<forall>k<15. \<bar>axis_overlap a b (GetCollisionVectors a b testVec_fresh ! j)\<bar>
                 \<le> \<bar>axis_overlap a b (GetCollisionVectors a b testVec_fresh ! k)\<bar>"
    and "\<forall>k<j. \<bar>axis_overlap a b (GetCollisionVectors a b testVec_fresh ! j)\<bar>
                 < \<bar>axis_overlap a b (GetCollisionVectors a b testVec_fresh ! k)\<bar>"
  shows "GetCollisionVectors a b testVec_fresh =
           face_axes (matRotate a) @ face_axes (matRotate b) @
           concat (map (\<lambda>vj. map (\<lambda>vk. cross_axis vj vk) (face_axes (matRotate b)))
                       (face_axes (matRotate a))) \<and>
         GetCollisionCorrection a b =
           (if \<bar>axis_overlap a b (GetCollisionVectors a b testVec_fresh ! j)\<bar> < 100
            then Vector3Scale (GetCollisionVectors a b testVec_fresh ! j)
                   (axis_overlap a b (GetCollisionVectors a b testVec_fresh ! j))
            else Vector3Zero)"
proof (intro conjI)
  show "GetCollisionVectors a b testVec_fresh =
           face_axes (matRotate a) @ face_axes (matRotate b) @
           concat (map (\<lambda>vj. map (\<lambda>vk. cross_axis vj vk) (face_axes (matRotate b)))
                       (face_axes (matRotate a)))"
    by (simp only: GetCollisionVectors_fresh candidate_axes_def)
  let ?ov = "\<lambda>k. axis_overlap a b (GetCollisionVectors a b testVec_fresh ! k)"
  show "GetCollisionCorrection a b =
           (if \<bar>?ov j\<bar> < 100
            then Vector3Scale (GetCollisionVectors a b testVec_fresh ! j) (?ov j)
            else Vector3Zero)"
  proof (cases "\<bar>?ov j\<bar> < 100")
    case True
    then show ?thesis
      using GetCollisionCorrection_first_min [OF assms(1) True assms(2,3)] by simp
  next
    case False
    then have "\<forall>k<15. 100 \<le> \<bar>?ov k\<bar>"
      using assms(2) by force
    then show ?thesis
      using False GetCollisionCorrection_none_below_100 by simp
  qed
qed

subsection \<open>Swapping the two colliders\<close>

lemma intervals_disjoint_commute: "intervals_disjoint p q \<longleftrightarrow> intervals_disjoint q p"
  by (auto simp: intervals_disjoint_def)

lemma axis_disjoint_commute: "axis_disjoint a b v \<longleftrightarrow> axis_disjoint b a v"
  unfolding axis_disjoint_def by (rule intervals_disjoint_commute)

lemma dot_Negate: "Vector3DotProduct p (Vector3Negate v) = - Vector3DotProduct p v"
  by (simp add: Vector3DotProduct_def Vector3Negate_def)

lemma bounds_fold_Negate:
  "fold (\<lambda>i bounds. \<lparr>v2x = min (v2x bounds) (- h i), v2y = max (v2y bounds) (- h i)\<rparr>) xs
      \<lparr>v2x = - hi, v2y = - lo\<rparr> =
   (let r = fold (\<lambda>i bounds. \<lparr>v2x = min (v2x bounds) (h i), v2y = max (v2y bounds) (h i)\<rparr>) xs
              \<lparr>v2x = lo, v2y = hi\<rparr>
    in \<lparr>v2x = - v2y r, v2y = - v2x r\<rparr>)"
proof (induction xs arbitrary: lo hi)
  case Nil
  show ?case by simp
next
  case (Cons i xs)
  have "min (- hi) (- h i) = - max hi (h i)" "max (- lo) (- h i) = - min lo (h i)"
    by (simp_all add: min_def max_def)
  then show ?case
    using Cons.IH [of "max hi (h i)" "min lo (h i)"] by simp
qed

lemma GetColliderProjectionBounds_Negate:
  "GetColliderProjectionBounds col (Vector3Negate v) =
     \<lparr>v2x = - v2y (GetColliderProjectionBounds col v),
      v2y = - v2x (GetColliderProjectionBounds col v)\<rparr>"
  unfolding GetColliderProjectionBounds_def Let_def dot_Negate
  using bounds_fold_Negate
    [of "\<lambda>i. Vector3DotProduct (vertGlobal col ! i) v" "[1..<COLLIDER_VERTEX_COUNT]"
        "Vector3DotProduct (vertGlobal col ! 0) v" "Vector3DotProduct (vertGlobal col ! 0) v"]
  by (simp add: Let_def)

lemma axis_disjoint_Negate: "axis_disjoint a b (Vector3Negate v) \<longleftrightarrow> axis_disjoint a b v"
  unfolding axis_disjoint_def GetColliderProjectionBounds_Negate intervals_disjoint_def
  by auto

lemma Vector3Equals_commute: "Vector3Equals p q \<longleftrightarrow> Vector3Equals q p"
  by (simp add: Vector3Equals_def abs_minus_commute max.commute)

lemma Vector3CrossProduct_swap: "Vector3CrossProduct q p = Vector3Negate (Vector3CrossProduct p q)"
  by (simp add: Vector3CrossProduct_def Vector3Negate_def)

lemma Vector3Normalize_Negate: "Vector3Normalize (Vector3Negate w) = Vector3Negate (Vector3Normalize w)"
  by (simp add: Vector3Normalize_def Vector3Negate_def Let_def)

lemma axis_disjoint_cross_axis_swap:
  "axis_disjoint a b (cross_axis q p) \<longleftrightarrow> axis_disjoint a b (cross_axis p q)"
proof (cases "Vector3Equals p q")
  case True
  then show ?thesis using Vector3Equals_commute [of p q] by (simp add: cross_axis_def)
next
  case False
  then have "cross_axis q p = Vector3Negate (cross_axis p q)"
    using Vector3Equals_commute [of p q]
    by (simp add: cross_axis_def Vector3CrossProduct_swap [of q p] Vector3Normalize_Negate)
  then show ?thesis by (simp add: axis_disjoint_Negate)
qed

subsection \<open>Evaluating axis-aligned boxes\<close>

lemma aabb_eval:
  "aabb (V3 x0 y0 z0) (V3 x1 y1 z1) (V3 tx ty tz) =
    \<lparr>vertLocal = [V3 x0 y0 z0, V3 x0 y0 z1, V3 x0 y1 z0, V3 x0 y1 z1,
                  V3 x1 y0 z0, V3 x1 y0 z1, V3 x1 y1 z0, V3 x1 y1 z1],
     vertGlobal = [V3 (x0 + tx) (y0 + ty) (z0 + tz), V3 (x0 + tx) (y0 + ty) (z1 + tz),
                   V3 (x0 + tx) (y1 + ty) (z0 + tz), V3 (x0 + tx) (y1 + ty) (z1 + tz),
                   V3 (x1 + tx) (y0 + ty) (z0 + tz), V3 (x1 + tx) (y0 + ty) (z1 + tz),
                   V3 (x1 + tx) (y1 + ty) (z0 + tz), V3 (x1 + tx) (y1 + ty) (z1 + tz)],
     matRotate = MatrixIdentity, matTranslate = MatrixTranslate tx ty tz\<rparr>"
  unfolding aabb_def SetColliderTranslation_def CreateCollider_eval
  by (subst UpdateColliderGlobalVerts_map)
     (simp_all add: Vector3Transform_def MatrixMultiply_def MatrixIdentity_def MatrixTranslate_def)

lemma aabb_run_calls: "aabb min3 max3 pos = run_calls min3 max3 [SetTranslation pos]"
  by (simp add: aabb_def run_calls_def)

lemma min8:
  "min (min (min (min (min (min (min a a) a) a) b) b) b) b = min a (b::real)"
  "min (min (min (min (min (min (min a a) b) b) a) a) b) b = min a b"
  "min (min (min (min (min (min (min a b) a) b) a) b) a) b = min a b"
  by (simp_all add: min_def)

lemma max8:
  "max (max (max (max (max (max (max a a) a) a) b) b) b) b = max a (b::real)"
  "max (max (max (max (max (max (max a a) b) b) a) a) b) b = max a b"
  "max (max (max (max (max (max (max a b) a) b) a) b) a) b = max a b"
  by (simp_all add: max_def)

lemma dot_unit:
  "Vector3DotProduct (V3 px py pz) (V3 1 0 0) = px"
  "Vector3DotProduct (V3 px py pz) (V3 0 1 0) = py"
  "Vector3DotProduct (V3 px py pz) (V3 0 0 1) = pz"
  "Vector3DotProduct (V3 px py pz) (V3 (- 1) 0 0) = - px"
  "Vector3DotProduct (V3 px py pz) (V3 0 (- 1) 0) = - py"
  "Vector3DotProduct (V3 px py pz) (V3 0 0 (- 1)) = - pz"
  by (simp_all add: Vector3DotProduct_def)

lemma proj_box_lit:
  "GetColliderProjectionBounds
     \<lparr>vertLocal = l,
      vertGlobal = [V3 xa ya za, V3 xa ya zb, V3 xa yb za, V3 xa yb zb,
                    V3 xb ya za, V3 xb ya zb, V3 xb yb za, V3 xb yb zb],
      matRotate = r, matTranslate = t\<rparr> (V3 1 0 0) = \<lparr>v2x = min xa xb, v2y = max xa xb\<rparr>"
  "GetColliderProjectionBounds
     \<lparr>vertLocal = l,
      vertGlobal = [V3 xa ya za, V3 xa ya zb, V3 xa yb za, V3 xa yb zb,
                    V3 xb ya za, V3 xb ya zb, V3 xb yb za, V3 xb yb zb],
      matRotate = r, matTranslate = t\<rparr> (V3 0 1 0) = \<lparr>v2x = min ya yb, v2y = max ya yb\<rparr>"
  "GetColliderProjectionBounds
     \<lparr>vertLocal = l,
      vertGlobal = [V3 xa ya za, V3 xa ya zb, V3 xa yb za, V3 xa yb zb,
                    V3 xb ya za, V3 xb ya zb, V3 xb yb za, V3 xb yb zb],
      matRotate = r, matTranslate = t\<rparr> (V3 0 0 1) = \<lparr>v2x = min za zb, v2y = max za zb\<rparr>"
  "GetColliderProjectionBounds
     \<lparr>vertLocal = l,
      vertGlobal = [V3 xa ya za, V3 xa ya zb, V3 xa yb za, V3 xa yb zb,
                    V3 xb ya za, V3 xb ya zb, V3 xb yb za, V3 xb yb zb],
      matRotate = r, matTranslate = t\<rparr> (V3 (- 1) 0 0) =
     \<lparr>v2x = min (- xa) (- xb), v2y = max (- xa) (- xb)\<rparr>"
  "GetColliderProjectionBounds
     \<lparr>vertLocal = l,
      vertGlobal = [V3 xa ya za, V3 xa ya zb, V3 xa yb za, V3 xa yb zb,
                    V3 xb ya za, V3 xb ya zb, V3 xb yb za, V3 xb yb zb],
      matRotate = r, matTranslate = t\<rparr> (V3 0 (- 1) 0) =
     \<lparr>v2x = min (- ya) (- yb), v2y = max (- ya) (- yb)\<rparr>"
  "GetColliderProjectionBounds
     \<lparr>vertLocal = l,
      vertGlobal = [V3 xa ya za, V3 xa ya zb, V3 xa yb za, V3 xa yb zb,
                    V3 xb ya za, V3 xb ya zb, V3 xb yb za, V3 xb yb zb],
      matRotate = r, matTranslate = t\<rparr> (V3 0 0 (- 1)) =
     \<lparr>v2x = min (- za) (- zb), v2y = max (- za) (- zb)\<rparr>"
  unfolding GetColliderProjectionBounds_lit Let_def dot_unit min8 max8
  by (rule refl)+

lemma proj_aabb:
  "GetColliderProjectionBounds (aabb (V3 x0 y0 z0) (V3 x1 y1 z1) (V3 tx ty tz)) (V3 1 0 0) =
     \<lparr>v2x = min (x0 + tx) (x1 + tx), v2y = max (x0 + tx) (x1 + tx)\<rparr>"
  "GetColliderProjectionBounds (aabb (V3 x0 y0 z0) (V3 x1 y1 z1) (V3 tx ty tz)) (V3 0 1 0) =
     \<lparr>v2x = min (y0 + ty) (y1 + ty), v2y = max (y0 + ty) (y1 + ty)\<rparr>"
  "GetColliderProjectionBounds (aabb (V3 x0 y0 z0) (V3 x1 y1 z1) (V3 tx ty tz)) (V3 0 0 1) =
     \<lparr>v2x = min (z0 + tz) (z1 + tz), v2y = max (z0 + tz) (z1 + tz)\<rparr>"
  "GetColliderProjectionBounds (aabb (V3 x0 y0 z0) (V3 x1 y1 z1) (V3 tx ty tz)) (V3 (- 1) 0 0) =
     \<lparr>v2x = min (- (x0 + tx)) (- (x1 + tx)), v2y = max (- (x0 + tx)) (- (x1 + tx))\<rparr>"
  "GetColliderProjectionBounds (aabb (V3 x0 y0 z0) (V3 x1 y1 z1) (V3 tx ty tz)) (V3 0 (- 1) 0) =
     \<lparr>v2x = min (- (y0 + ty)) (- (y1 + ty)), v2y = max (- (y0 + ty)) (- (y1 + ty))\<rparr>"
  "GetColliderProjectionBounds (aabb (V3 x0 y0 z0) (V3 x1 y1 z1) (V3 tx ty tz)) (V3 0 0 (- 1)) =
     \<lparr>v2x = min (- (z0 + tz)) (- (z1 + tz)), v2y = max (- (z0 + tz)) (- (z1 + tz))\<rparr>"
  unfolding aabb_eval GetColliderProjectionBounds_lit Let_def dot_unit min8 max8
  by (rule refl)+

lemma candidate_axes_identity:
  assumes "matRotate a = MatrixIdentity" "matRotate b = MatrixIdentity"
  shows "candidate_axes a b = aligned_axes"
  by (simp add: aligned_axes_def candidate_axes_def face_axes_def assms cross_axis_def Vector3Transform_def
      MatrixIdentity_def Vector3Equals_def EPSILON_def Vector3Normalize_def Vector3CrossProduct_def)

lemma candidate_axes_aabb:
  "candidate_axes (aabb (V3 x0 y0 z0) (V3 x1 y1 z1) (V3 tx ty tz))
                  (aabb (V3 x0' y0' z0') (V3 x1' y1' z1') (V3 tx' ty' tz')) = aligned_axes"
  by (rule candidate_axes_identity) (simp_all add: aabb_eval)

lemma nth_aligned_axes:
  "aligned_axes ! 0 = V3 1 0 0" "aligned_axes ! 1 = V3 0 1 0" "aligned_axes ! 2 = V3 0 0 1"
  "aligned_axes ! 3 = V3 1 0 0" "aligned_axes ! 4 = V3 0 1 0" "aligned_axes ! 5 = V3 0 0 1"
  "aligned_axes ! 6 = V3 1 0 0" "aligned_axes ! 7 = V3 0 0 1" "aligned_axes ! 8 = V3 0 (- 1) 0"
  "aligned_axes ! 9 = V3 0 0 (- 1)" "aligned_axes ! 10 = V3 1 0 0" "aligned_axes ! 11 = V3 1 0 0"
  "aligned_axes ! 12 = V3 0 1 0" "aligned_axes ! 13 = V3 (- 1) 0 0" "aligned_axes ! 14 = V3 1 0 0"
  by (simp_all add: aligned_axes_def)

lemma length_aligned_axes [simp]: "length aligned_axes = 15"
  by (simp add: aligned_axes_def)

lemma axes_box [simp]:
  "GetCollisionVectors (box2 p) (box2 q) testVec_fresh = aligned_axes"
  "GetCollisionVectors (box200 p) (box200 q) testVec_fresh = aligned_axes"
  by (cases p, cases q, simp add: box2_def box200_def GetCollisionVectors_fresh candidate_axes_aabb)+

lemma axis_overlap_aabb:
  "axis_overlap (aabb (V3 x0 y0 z0) (V3 x1 y1 z1) (V3 tx ty tz))
                (aabb (V3 x0' y0' z0') (V3 x1' y1' z1') (V3 tx' ty' tz')) (V3 1 0 0) =
     GetOverlap \<lparr>v2x = min (x0 + tx) (x1 + tx), v2y = max (x0 + tx) (x1 + tx)\<rparr>
                \<lparr>v2x = min (x0' + tx') (x1' + tx'), v2y = max (x0' + tx') (x1' + tx')\<rparr>"
  "axis_overlap (aabb (V3 x0 y0 z0) (V3 x1 y1 z1) (V3 tx ty tz))
                (aabb (V3 x0' y0' z0') (V3 x1' y1' z1') (V3 tx' ty' tz')) (V3 0 1 0) =
     GetOverlap \<lparr>v2x = min (y0 + ty) (y1 + ty), v2y = max (y0 + ty) (y1 + ty)\<rparr>
                \<lparr>v2x = min (y0' + ty') (y1' + ty'), v2y = max (y0' + ty') (y1' + ty')\<rparr>"
  "axis_overlap (aabb (V3 x0 y0 z0) (V3 x1 y1 z1) (V3 tx ty tz))
                (aabb (V3 x0' y0' z0') (V3 x1' y1' z1') (V3 tx' ty' tz')) (V3 0 0 1) =
     GetOverlap \<lparr>v2x = min (z0 + tz) (z1 + tz), v2y = max (z0 + tz) (z1 + tz)\<rparr>
                \<lparr>v2x = min (z0' + tz') (z1' + tz'), v2y = max (z0' + tz') (z1' + tz')\<rparr>"
  "axis_overlap (aabb (V3 x0 y0 z0) (V3 x1 y1 z1) (V3 tx ty tz))
                (aabb (V3 x0' y0' z0') (V3 x1' y1' z1') (V3 tx' ty' tz')) (V3 (- 1) 0 0) =
     GetOverlap \<lparr>v2x = min (- (x0 + tx)) (- (x1 + tx)), v2y = max (- (x0 + tx)) (- (x1 + tx))\<rparr>
                \<lparr>v2x = min (- (x0' + tx')) (- (x1' + tx')), v2y = max (- (x0' + tx')) (- (x1' + tx'))\<rparr>"
  "axis_overlap (aabb (V3 x0 y0 z0) (V3 x1 y1 z1) (V3 tx ty tz))
                (aabb (V3 x0' y0' z0') (V3 x1' y1' z1') (V3 tx' ty' tz')) (V3 0 (- 1) 0) =
     GetOverlap \<lparr>v2x = min (- (y0 + ty)) (- (y1 + ty)), v2y = max (- (y0 + ty)) (- (y1 + ty))\<rparr>
                \<lparr>v2x = min (- (y0' + ty')) (- (y1' + ty')), v2y = max (- (y0' + ty')) (- (y1' + ty'))\<rparr>"
  "axis_overlap (aabb (V3 x0 y0 z0) (V3 x1 y1 z1) (V3 tx ty tz))
                (aabb (V3 x0' y0' z0') (V3 x1' y1' z1') (V3 tx' ty' tz')) (V3 0 0 (- 1)) =
     GetOverlap \<lparr>v2x = min (- (z0 + tz)) (- (z1 + tz)), v2y = max (- (z0 + tz)) (- (z1 + tz))\<rparr>
                \<lparr>v2x = min (- (z0' + tz')) (- (z1' + tz')), v2y = max (- (z0' + tz')) (- (z1' + tz'))\<rparr>"
  unfolding axis_overlap_def proj_aabb by (rule refl)+

lemma proj_box2_x:
  "GetColliderProjectionBounds (box2 (V3 tx ty tz)) (V3 1 0 0) = \<lparr>v2x = tx, v2y = 2 + tx\<rparr>"
  unfolding box2_def proj_aabb by simp

subsection \<open>The pairs of boxes of the examples\<close>

lemma ex_apart_disjoint: "axis_disjoint (box2 (V3 0 0 0)) (box2 (V3 3 0 0)) (aligned_axes ! 0)"
  unfolding nth_aligned_axes axis_disjoint_def box2_def proj_aabb intervals_disjoint_def
  by simp

lemma ex_tie_overlaps:
  "map (axis_overlap (box2 (V3 0 0 0)) (box2 (V3 1 1 0)))
       aligned_axes = [- 1, - 1, - 2, - 1, - 1, - 2, - 1, - 2, 1, - 2, - 1, - 1, - 1, 1, - 1]"
  unfolding box2_def box200_def aligned_axes_def list.map axis_overlap_aabb
  by (simp add: GetOverlap_def)

lemma ov_tie:
  "k < 15 \<Longrightarrow> axis_overlap (box2 (V3 0 0 0)) (box2 (V3 1 1 0))
      (aligned_axes ! k) =
     [- 1, - 1, - 2, - 1, - 1, - 2, - 1, - 2, 1, - 2, - 1, - 1, - 1, 1, - 1] ! k"
  using map_nth_eq [OF ex_tie_overlaps, of k] by simp

lemma ex_push_overlaps:
  "map (axis_overlap (box2 (V3 1 0 0)) (box2 (V3 0 0 0)))
       aligned_axes = [1, - 2, - 2, 1, - 2, - 2, 1, - 2, - 2, - 2, 1, 1, - 2, - 1, 1]"
  unfolding box2_def box200_def aligned_axes_def list.map axis_overlap_aabb
  by (simp add: GetOverlap_def)

lemma ov_push:
  "k < 15 \<Longrightarrow> axis_overlap (box2 (V3 1 0 0)) (box2 (V3 0 0 0))
      (aligned_axes ! k) =
     [1, - 2, - 2, 1, - 2, - 2, 1, - 2, - 2, - 2, 1, 1, - 2, - 1, 1] ! k"
  using map_nth_eq [OF ex_push_overlaps, of k] by simp

lemma ex_push_correction:
  "GetCollisionCorrection (box2 (V3 1 0 0)) (box2 (V3 0 0 0)) = V3 1 0 0"
proof -
  let ?a = "box2 (V3 1 0 0)" and ?b = "box2 (V3 0 0 0)"
  have lt: "(0::nat) < 15" by simp
  have mn: "\<forall>k<15. \<bar>axis_overlap ?a ?b (GetCollisionVectors ?a ?b testVec_fresh ! 0)\<bar>
                 \<le> \<bar>axis_overlap ?a ?b (GetCollisionVectors ?a ?b testVec_fresh ! k)\<bar>"
    unfolding all_less_15 by (simp add: ov_push)
  have fst: "\<forall>k<0. \<bar>axis_overlap ?a ?b (GetCollisionVectors ?a ?b testVec_fresh ! 0)\<bar>
                 < \<bar>axis_overlap ?a ?b (GetCollisionVectors ?a ?b testVec_fresh ! k)\<bar>"
    by simp
  have small: "\<bar>axis_overlap ?a ?b (GetCollisionVectors ?a ?b testVec_fresh ! 0)\<bar> < 100"
    by (simp add: ov_push)
  from GetCollisionCorrection_first_min [OF lt small mn fst] ov_push [of 0]
  show ?thesis by (simp add: nth_aligned_axes Vector3Scale_def)
qed

lemma ex_big_overlaps:
  "map (axis_overlap (box200 (V3 0 0 0)) (box200 (V3 0 0 0)))
       aligned_axes = [- 200, - 200, - 200, - 200, - 200, - 200, - 200, - 200, - 200, - 200, - 200, - 200, - 200, - 200, - 200]"
  unfolding box2_def box200_def aligned_axes_def list.map axis_overlap_aabb
  by (simp add: GetOverlap_def)

lemma ov_big:
  "k < 15 \<Longrightarrow> axis_overlap (box200 (V3 0 0 0)) (box200 (V3 0 0 0))
      (aligned_axes ! k) =
     [- 200, - 200, - 200, - 200, - 200, - 200, - 200, - 200, - 200, - 200, - 200, - 200, - 200, - 200, - 200] ! k"
  using map_nth_eq [OF ex_big_overlaps, of k] by simp



lemma ex_touch_not_disjoint:
  "\<forall>k<15. \<not> axis_disjoint (box2 (V3 0 0 0)) (box2 (V3 2 0 0)) (aligned_axes ! k)"
  "\<forall>k<15. \<not> axis_disjoint (box2 (V3 2 0 0)) (box2 (V3 0 0 0)) (aligned_axes ! k)"
  unfolding all_less_15 nth_aligned_axes axis_disjoint_def box2_def proj_aabb intervals_disjoint_def
  by simp_all

lemma ex_tie_correction:
  "GetCollisionCorrection (box2 (V3 0 0 0)) (box2 (V3 1 1 0)) = V3 (- 1) 0 0"
proof -
  let ?a = "box2 (V3 0 0 0)" and ?b = "box2 (V3 1 1 0)"
  have lt: "(0::nat) < 15" by simp
  have mn: "\<forall>k<15. \<bar>axis_overlap ?a ?b (GetCollisionVectors ?a ?b testVec_fresh ! 0)\<bar>
                 \<le> \<bar>axis_overlap ?a ?b (GetCollisionVectors ?a ?b testVec_fresh ! k)\<bar>"
    unfolding all_less_15 by (simp add: ov_tie)
  have fst: "\<forall>k<0. \<bar>axis_overlap ?a ?b (GetCollisionVectors ?a ?b testVec_fresh ! 0)\<bar>
                 < \<bar>axis_overlap ?a ?b (GetCollisionVectors ?a ?b testVec_fresh ! k)\<bar>"
    by simp
  from GetCollisionCorrection_by_first_minimum [OF lt mn fst, THEN conjunct2] ov_tie [of 0]
  show ?thesis by (simp add: nth_aligned_axes Vector3Scale_def)
qed

lemma ex_deep_tie_overlaps:
  "map (axis_overlap (box200 (V3 0 0 0)) (box200 (V3 50 50 0))) aligned_axes =
     [- 150, - 150, - 200, - 150, - 150, - 200, - 150, - 200, 150, - 200, - 150, - 150, - 150,
      150, - 150]"
  unfolding box2_def box200_def aligned_axes_def list.map axis_overlap_aabb
  by (simp add: GetOverlap_def)

lemma ov_deep_tie:
  "k < 15 \<Longrightarrow> axis_overlap (box200 (V3 0 0 0)) (box200 (V3 50 50 0)) (aligned_axes ! k) =
     [- 150, - 150, - 200, - 150, - 150, - 200, - 150, - 200, 150, - 200, - 150, - 150, - 150,
      150, - 150] ! k"
  using map_nth_eq [OF ex_deep_tie_overlaps, of k] by simp

subsection \<open>Evaluating the transformations on explicit vertices\<close>

lemma SetColliderRotation_lit:
  "SetColliderRotation
     \<lparr>vertLocal = [p0, p1, p2, p3, p4, p5, p6, p7], vertGlobal = [q0, q1, q2, q3, q4, q5, q6, q7],
      matRotate = r, matTranslate = t\<rparr> axis ang =
   \<lparr>vertLocal = [p0, p1, p2, p3, p4, p5, p6, p7],
    vertGlobal = map (\<lambda>v. Vector3Transform v (MatrixMultiply (MatrixRotate axis ang) t))
                     [p0, p1, p2, p3, p4, p5, p6, p7],
    matRotate = MatrixRotate axis ang, matTranslate = t\<rparr>"
  unfolding SetColliderRotation_def
  by (subst UpdateColliderGlobalVerts_map) simp_all


lemma sin_cos_squares: "sin ang * sin ang + cos ang * cos ang = (1::real)"
  using sin_cos_squared_add [of ang] by (simp add: power2_eq_square)

lemma cos_sin_squares_neg: "- (cos ang * cos ang) - sin ang * sin ang = (- 1::real)"
  using sin_cos_squares [of ang] by linarith

lemma MatrixRotate_y:
  "MatrixRotate (V3 0 1 0) ang =
     \<lparr>m0 = cos ang, m4 = 0, m8 = sin ang, m12 = 0,
      m1 = 0, m5 = 1, m9 = 0, m13 = 0,
      m2 = - sin ang, m6 = 0, m10 = cos ang, m14 = 0,
      m3 = 0, m7 = 0, m11 = 0, m15 = 1\<rparr>"
  by (simp add: MatrixRotate_def Let_def)

lemma MatrixRotate_z:
  "MatrixRotate (V3 0 0 1) ang =
     \<lparr>m0 = cos ang, m4 = - sin ang, m8 = 0, m12 = 0,
      m1 = sin ang, m5 = cos ang, m9 = 0, m13 = 0,
      m2 = 0, m6 = 0, m10 = 1, m14 = 0,
      m3 = 0, m7 = 0, m11 = 0, m15 = 1\<rparr>"
  by (simp add: MatrixRotate_def Let_def)

subsection \<open>Two cubes turned about the y axis\<close>

lemma turned_cube_eval:
  "turned_cube ang =
    \<lparr>vertLocal = [V3 (- 1) (- 1) (- 1), V3 (- 1) (- 1) 1, V3 (- 1) 1 (- 1), V3 (- 1) 1 1,
                  V3 1 (- 1) (- 1), V3 1 (- 1) 1, V3 1 1 (- 1), V3 1 1 1],
     vertGlobal = [V3 (- cos ang - sin ang) (- 1) (sin ang - cos ang),
                   V3 (sin ang - cos ang) (- 1) (sin ang + cos ang),
                   V3 (- cos ang - sin ang) 1 (sin ang - cos ang),
                   V3 (sin ang - cos ang) 1 (sin ang + cos ang),
                   V3 (cos ang - sin ang) (- 1) (- sin ang - cos ang),
                   V3 (cos ang + sin ang) (- 1) (cos ang - sin ang),
                   V3 (cos ang - sin ang) 1 (- sin ang - cos ang),
                   V3 (cos ang + sin ang) 1 (cos ang - sin ang)],
     matRotate = MatrixRotate (V3 0 1 0) ang, matTranslate = MatrixIdentity\<rparr>"
  unfolding turned_cube_def CreateCollider_eval SetColliderRotation_lit list.map
  by (simp add: MatrixRotate_y Vector3Transform_def MatrixMultiply_def MatrixIdentity_def)

text \<open>A collider with two opposite vertices projects, on every axis, to an interval around
  0.\<close>

lemma proj_contains_zero:
  assumes "vertGlobal col = [p0, p1, p2, p3, p4, p5, p6, p7]"
    and "p7 = Vector3Negate p0"
  shows "v2x (GetColliderProjectionBounds col v) \<le> 0 \<and> 0 \<le> v2y (GetColliderProjectionBounds col v)"
proof -
  define d where "d = (\<lambda>p. Vector3DotProduct p v)"
  define lo where "lo = min (min (min (min (min (min (min (d p0) (d p1)) (d p2)) (d p3)) (d p4)) (d p5)) (d p6)) (d p7)"
  define hi where "hi = max (max (max (max (max (max (max (d p0) (d p1)) (d p2)) (d p3)) (d p4)) (d p5)) (d p6)) (d p7)"
  have opp: "d p7 = - d p0"
    by (simp add: d_def assms(2) Vector3DotProduct_def Vector3Negate_def)
  have b: "lo \<le> d p0" "lo \<le> d p7" "d p0 \<le> hi" "d p7 \<le> hi"
    unfolding lo_def hi_def by (simp_all add: min_le_iff_disj le_max_iff_disj)
  have "lo \<le> 0 \<and> 0 \<le> hi"
    using b opp by linarith
  moreover have "GetColliderProjectionBounds col v = \<lparr>v2x = lo, v2y = hi\<rparr>"
    unfolding GetColliderProjectionBounds_8 [OF assms(1)] Let_def lo_def hi_def d_def ..
  ultimately show ?thesis by simp
qed

lemma turned_cubes_not_disjoint: "\<not> axis_disjoint (turned_cube ang) (turned_cube ang') v"
proof -
  have a: "v2x (GetColliderProjectionBounds (turned_cube ang) v) \<le> 0 \<and>
           0 \<le> v2y (GetColliderProjectionBounds (turned_cube ang) v)" for ang
    by (rule proj_contains_zero [where ?p0.0 = "V3 (- cos ang - sin ang) (- 1) (sin ang - cos ang)"])
       (simp_all add: turned_cube_eval Vector3Negate_def)
  show ?thesis
    using a [of ang] a [of ang']
    by (simp add: axis_disjoint_def intervals_disjoint_def)
qed

lemma turned_cubes_overlap: "TestColliderPair (turned_cube ang) (turned_cube ang')"
  by (simp add: TestColliderPair_iff_candidate_axes turned_cubes_not_disjoint)

lemma face_axes_turned_cube:
  "face_axes (matRotate (turned_cube ang)) =
     [V3 (cos ang) 0 (- sin ang), V3 0 1 0, V3 (sin ang) 0 (cos ang)]"
  by (simp add: turned_cube_eval MatrixRotate_y face_axes_def Vector3Transform_def)

text \<open>
  Where the sine and the cosine of the angle agree, the first face axis of the cube turned by
  \<open>ang\<close> is the opposite of the third face axis of the cube turned by \<open>- ang\<close>; the two are not
  equal, their cross product is the zero vector, and so is the axis that the loop stores.
\<close>

lemma cross_axis_opposite:
  assumes "sin ang = cos ang" "0 < cos ang"
  shows "cross_axis (V3 (cos ang) 0 (- sin ang)) (V3 (sin (- ang)) 0 (cos (- ang))) = Vector3Zero"
proof -
  have "cos ang * cos ang = 1 / 2"
    using sin_cos_squares [of ang] assms(1) by simp
  then have "\<not> cos ang \<le> 1 / 2"
    using assms(2) mult_mono [of "cos ang" "1 / 2" "cos ang" "1 / 2"] by auto
  then have "\<not> 2 * cos ang \<le> EPSILON * max 1 (cos ang)"
    using cos_le_one [of ang] by (simp add: EPSILON_def max_def)
  then show ?thesis
    using assms
    by (simp add: cross_axis_def Vector3Equals_def Vector3CrossProduct_def Vector3Normalize_def
        Vector3Zero_def)
qed

lemma axes_opposite:
  assumes "sin ang = cos ang" "0 < cos ang"
  shows
    "GetCollisionVectors (turned_cube ang) (turned_cube (- ang)) testVec_fresh ! 0 =
       V3 (cos ang) 0 (- cos ang)"
    "GetCollisionVectors (turned_cube ang) (turned_cube (- ang)) testVec_fresh ! 5 =
       V3 (- cos ang) 0 (cos ang)"
    "GetCollisionVectors (turned_cube ang) (turned_cube (- ang)) testVec_fresh ! 8 = Vector3Zero"
  unfolding GetCollisionVectors_fresh candidate_axes_def face_axes_turned_cube
  using cross_axis_opposite [OF assms] assms(1)
  by simp_all

lemma quarter_turn: "sin (pi / 4) = cos (pi / 4)" "0 < cos (pi / 4)"
  by (simp_all add: sin_45 cos_45)

subsection \<open>The plate through the edge of the cube\<close>

lemma sin_half: "(2 / 5 :: real) < sin (1 / 2)" "sin (1 / 2) < (1 / 2 :: real)"
proof -
  have "(\<Sum>m<4. sin_coeff m * (1 / 2 :: real) ^ m) = 23 / 48"
    by (simp add: numeral_eq_Suc sin_coeff_Suc cos_coeff_Suc)
  then have "\<bar>sin (1 / 2 :: real) - 23 / 48\<bar> \<le> inverse (fact 4) * \<bar>1 / 2\<bar> ^ 4"
    using Maclaurin_sin_bound [of "1 / 2" 4] by simp
  moreover have "inverse (fact 4) * \<bar>1 / 2 :: real\<bar> ^ 4 = 1 / 384"
    by (simp add: fact_numeral power_divide)
  ultimately have "\<bar>sin (1 / 2 :: real) - 23 / 48\<bar> \<le> 1 / 384"
    by simp
  then show "(2 / 5 :: real) < sin (1 / 2)" "sin (1 / 2) < (1 / 2 :: real)"
    by linarith+
qed

lemma cos_half: "(4 / 5 :: real) < cos (1 / 2)" "cos (1 / 2) < (1 :: real)"
proof -
  have pos: "0 < cos (1 / 2 :: real)"
    using pi_ge_two by (intro cos_gt_zero) simp_all
  have sq: "cos (1 / 2) * cos (1 / 2) = 1 - sin (1 / 2) * sin (1 / 2 :: real)"
    using sin_cos_squares [of "1 / 2"] by linarith
  have "sin (1 / 2) * sin (1 / 2 :: real) < 1 / 2 * (1 / 2)"
    using sin_half by (intro mult_strict_mono) simp_all
  then have lo: "3 / 4 < cos (1 / 2) * cos (1 / 2 :: real)"
    using sq by linarith
  show "(4 / 5 :: real) < cos (1 / 2)"
  proof (rule ccontr)
    assume "\<not> 4 / 5 < cos (1 / 2 :: real)"
    then have "cos (1 / 2) * cos (1 / 2 :: real) \<le> 4 / 5 * (4 / 5)"
      using pos by (intro mult_mono) simp_all
    then show False using lo by simp
  qed
  have "0 < sin (1 / 2) * sin (1 / 2 :: real)"
    using sin_half by simp
  then have "cos (1 / 2) * cos (1 / 2 :: real) < 1"
    using sq by linarith
  then show "cos (1 / 2) < (1 :: real)"
    using pos by (metis less_1_mult linorder_not_less mult.right_neutral mult_le_cancel_left_pos order_le_less)
qed

lemma corner_cube_eval:
  "corner_cube =
    \<lparr>vertLocal = [V3 (- 2) 0 0, V3 (- 2) 0 2, V3 (- 2) 2 0, V3 (- 2) 2 2,
                  V3 0 0 0, V3 0 0 2, V3 0 2 0, V3 0 2 2],
     vertGlobal = [V3 (- 2) 0 0, V3 (- 2) 0 2, V3 (- 2) 2 0, V3 (- 2) 2 2,
                   V3 0 0 0, V3 0 0 2, V3 0 2 0, V3 0 2 2],
     matRotate = MatrixIdentity, matTranslate = MatrixIdentity\<rparr>"
  unfolding corner_cube_def CreateCollider_eval ..

lemma plate_eval:
  "plate =
    \<lparr>vertLocal = [V3 (- 1) 0 0, V3 (- 1) 0 2, V3 (- 1) 0 0, V3 (- 1) 0 2,
                  V3 1 0 0, V3 1 0 2, V3 1 0 0, V3 1 0 2],
     vertGlobal = [V3 (- cos (1 / 2)) (- sin (1 / 2)) 0, V3 (- cos (1 / 2)) (- sin (1 / 2)) 2,
                   V3 (- cos (1 / 2)) (- sin (1 / 2)) 0, V3 (- cos (1 / 2)) (- sin (1 / 2)) 2,
                   V3 (cos (1 / 2)) (sin (1 / 2)) 0, V3 (cos (1 / 2)) (sin (1 / 2)) 2,
                   V3 (cos (1 / 2)) (sin (1 / 2)) 0, V3 (cos (1 / 2)) (sin (1 / 2)) 2],
     matRotate = MatrixRotate (V3 0 0 1) (1 / 2), matTranslate = MatrixIdentity\<rparr>"
  unfolding plate_def CreateCollider_eval SetColliderRotation_lit list.map
  by (simp add: MatrixRotate_z Vector3Transform_def MatrixMultiply_def MatrixIdentity_def)

lemma plate_sine: "m1 (matRotate plate) = sin (1 / 2)"
  by (simp add: plate_eval MatrixRotate_z)

lemma candidate_axes_plate: "candidate_axes corner_cube plate = plate_axes"
proof -
  have f: "face_axes (matRotate corner_cube) = [V3 1 0 0, V3 0 1 0, V3 0 0 1]"
    "face_axes (matRotate plate) =
       [V3 (cos (1 / 2)) (sin (1 / 2)) 0, V3 (- sin (1 / 2)) (cos (1 / 2)) 0, V3 0 0 1]"
    by (simp_all add: corner_cube_eval plate_eval MatrixRotate_z face_axes_def Vector3Transform_def
        MatrixIdentity_def)
  note b = sin_half cos_half
  have c: "cross_axis (V3 1 0 0) (V3 (cos (1 / 2)) (sin (1 / 2)) 0) = V3 0 0 1"
    "cross_axis (V3 1 0 0) (V3 (- sin (1 / 2)) (cos (1 / 2)) 0) = V3 0 0 1"
    "cross_axis (V3 1 0 0) (V3 0 0 1) = V3 0 (- 1) 0"
    "cross_axis (V3 0 1 0) (V3 (cos (1 / 2)) (sin (1 / 2)) 0) = V3 0 0 (- 1)"
    "cross_axis (V3 0 1 0) (V3 (- sin (1 / 2)) (cos (1 / 2)) 0) = V3 0 0 1"
    "cross_axis (V3 0 1 0) (V3 0 0 1) = V3 1 0 0"
    "cross_axis (V3 0 0 1) (V3 (cos (1 / 2)) (sin (1 / 2)) 0) = V3 (- sin (1 / 2)) (cos (1 / 2)) 0"
    "cross_axis (V3 0 0 1) (V3 (- sin (1 / 2)) (cos (1 / 2)) 0) = V3 (- cos (1 / 2)) (- sin (1 / 2)) 0"
    "cross_axis (V3 0 0 1) (V3 0 0 1) = V3 1 0 0"
    using b
    by (simp_all add: cross_axis_def Vector3Equals_def EPSILON_def Vector3CrossProduct_def
        Vector3Normalize_def sin_cos_squares add.commute [of "cos (1 / 2) * cos (1 / 2)"])
  show ?thesis
    unfolding candidate_axes_def f plate_axes_def by (simp add: c)
qed

lemma axes_plate [simp]: "GetCollisionVectors corner_cube plate testVec_fresh = plate_axes"
  by (simp only: GetCollisionVectors_fresh candidate_axes_plate)

lemma length_plate_axes [simp]: "length plate_axes = 15"
  by (simp add: plate_axes_def)

lemma proj_plate:
  "GetColliderProjectionBounds plate (V3 1 0 0) = \<lparr>v2x = - cos (1 / 2), v2y = cos (1 / 2)\<rparr>"
  "GetColliderProjectionBounds plate (V3 0 1 0) = \<lparr>v2x = - sin (1 / 2), v2y = sin (1 / 2)\<rparr>"
  "GetColliderProjectionBounds plate (V3 0 0 1) = \<lparr>v2x = 0, v2y = 2\<rparr>"
  "GetColliderProjectionBounds plate (V3 (cos (1 / 2)) (sin (1 / 2)) 0) = \<lparr>v2x = - 1, v2y = 1\<rparr>"
  "GetColliderProjectionBounds plate (V3 (- sin (1 / 2)) (cos (1 / 2)) 0) = \<lparr>v2x = 0, v2y = 0\<rparr>"
  "GetColliderProjectionBounds plate (V3 0 (- 1) 0) = \<lparr>v2x = - sin (1 / 2), v2y = sin (1 / 2)\<rparr>"
  "GetColliderProjectionBounds plate (V3 0 0 (- 1)) = \<lparr>v2x = - 2, v2y = 0\<rparr>"
  "GetColliderProjectionBounds plate (V3 (- cos (1 / 2)) (- sin (1 / 2)) 0) = \<lparr>v2x = - 1, v2y = 1\<rparr>"
  unfolding plate_eval GetColliderProjectionBounds_lit Let_def Vector3DotProduct_def
  using sin_half cos_half
  by (simp_all add: cos_sin_squares_neg)

lemma proj_corner_cube:
  "GetColliderProjectionBounds corner_cube (V3 1 0 0) = \<lparr>v2x = - 2, v2y = 0\<rparr>"
  "GetColliderProjectionBounds corner_cube (V3 0 1 0) = \<lparr>v2x = 0, v2y = 2\<rparr>"
  "GetColliderProjectionBounds corner_cube (V3 0 0 1) = \<lparr>v2x = 0, v2y = 2\<rparr>"
  "GetColliderProjectionBounds corner_cube (V3 (cos (1 / 2)) (sin (1 / 2)) 0) =
     \<lparr>v2x = - (2 * cos (1 / 2)), v2y = 2 * sin (1 / 2)\<rparr>"
  "GetColliderProjectionBounds corner_cube (V3 (- sin (1 / 2)) (cos (1 / 2)) 0) =
     \<lparr>v2x = 0, v2y = 2 * sin (1 / 2) + 2 * cos (1 / 2)\<rparr>"
  "GetColliderProjectionBounds corner_cube (V3 0 (- 1) 0) = \<lparr>v2x = - 2, v2y = 0\<rparr>"
  "GetColliderProjectionBounds corner_cube (V3 0 0 (- 1)) = \<lparr>v2x = - 2, v2y = 0\<rparr>"
  "GetColliderProjectionBounds corner_cube (V3 (- cos (1 / 2)) (- sin (1 / 2)) 0) =
     \<lparr>v2x = - (2 * sin (1 / 2)), v2y = 2 * cos (1 / 2)\<rparr>"
  unfolding corner_cube_eval GetColliderProjectionBounds_lit Let_def Vector3DotProduct_def
  using sin_half cos_half
  by simp_all

lemma ex_plate_overlaps:
  "map (axis_overlap corner_cube plate) plate_axes =
     [- cos (1 / 2), sin (1 / 2), - 2, - 1 - 2 * sin (1 / 2), - (2 * sin (1 / 2) + 2 * cos (1 / 2)),
      - 2, - 2, - 2, - sin (1 / 2), - 2, - 2, - cos (1 / 2),
      - (2 * sin (1 / 2) + 2 * cos (1 / 2)), 1 + 2 * sin (1 / 2), - cos (1 / 2)]"
  unfolding plate_axes_def list.map axis_overlap_def proj_plate proj_corner_cube
  using sin_half cos_half
  by (simp add: GetOverlap_def)

lemma ov_plate:
  "k < 15 \<Longrightarrow> axis_overlap corner_cube plate (plate_axes ! k) =
     [- cos (1 / 2), sin (1 / 2), - 2, - 1 - 2 * sin (1 / 2), - (2 * sin (1 / 2) + 2 * cos (1 / 2)),
      - 2, - 2, - 2, - sin (1 / 2), - 2, - 2, - cos (1 / 2),
      - (2 * sin (1 / 2) + 2 * cos (1 / 2)), 1 + 2 * sin (1 / 2), - cos (1 / 2)] ! k"
  using map_nth_eq [OF ex_plate_overlaps, of k] by simp

lemma ex_plate_correction: "GetCollisionCorrection corner_cube plate = V3 0 (sin (1 / 2)) 0"
proof -
  let ?a = corner_cube and ?b = plate
  note b = sin_half cos_half
  have lt: "(1::nat) < 15" by simp
  have mn: "\<forall>k<15. \<bar>axis_overlap ?a ?b (GetCollisionVectors ?a ?b testVec_fresh ! 1)\<bar>
                 \<le> \<bar>axis_overlap ?a ?b (GetCollisionVectors ?a ?b testVec_fresh ! k)\<bar>"
    unfolding all_less_15 using b by (simp add: ov_plate)
  have fst: "\<forall>k<1. \<bar>axis_overlap ?a ?b (GetCollisionVectors ?a ?b testVec_fresh ! 1)\<bar>
                 < \<bar>axis_overlap ?a ?b (GetCollisionVectors ?a ?b testVec_fresh ! k)\<bar>"
    using b by (simp add: ov_plate)
  have small: "\<bar>axis_overlap ?a ?b (GetCollisionVectors ?a ?b testVec_fresh ! 1)\<bar> < 100"
    using b by (simp add: ov_plate)
  have ax1: "plate_axes ! Suc 0 = V3 0 1 0" by (simp add: plate_axes_def)
  from GetCollisionCorrection_first_min [OF lt small mn fst] ov_plate [of 1]
  show ?thesis by (simp add: ax1 Vector3Scale_def)
qed

lemma ex_plate_not_disjoint:
  "list_all (\<lambda>v. \<not> axis_disjoint corner_cube plate v) plate_axes"
proof -
  note b = sin_half cos_half
  have nz: "\<forall>k<15. axis_overlap corner_cube plate (plate_axes ! k) \<noteq> 0"
    unfolding all_less_15 using b by (simp add: ov_plate)
  have "\<forall>k<length plate_axes. \<not> axis_disjoint corner_cube plate (plate_axes ! k)"
    using nz GetOverlap_disjoint unfolding axis_disjoint_def axis_overlap_def length_plate_axes
    by blast
  then show ?thesis by (simp add: list_all_length)
qed

subsection \<open>Axes that are not unit vectors\<close>






subsection \<open>The unit cube inside the box with a scaled rotation matrix\<close>











section \<open>The claims\<close>

text \<open>
  C1.  \<^verbatim>\<open>TestColliderPair(a, b)\<close> returns false if and only if on at least one of the 15
  candidate axes the projection intervals of \<open>a\<close> and \<open>b\<close> are disjoint (one box's maximum
  strictly less than the other's minimum, in either direction); when all 15 axes show
  overlapping intervals it returns true.  The buffer holds exactly 15 axes, and the loop
  leaves with false at an axis with disjoint intervals, whatever the later entries of the
  buffer are.
\<close>

theorem C1_TestColliderPair_separating_axis:
  "(TestColliderPair a b = False \<longleftrightarrow>
      (\<exists>i<15. axis_disjoint a b (GetCollisionVectors a b testVec_fresh ! i))) \<and>
   length (GetCollisionVectors a b testVec_fresh) = 15 \<and>
   (\<forall>i<15. axis_disjoint a b (testVec ! i) \<longrightarrow> TestColliderPair_loop a b testVec i = False)"
proof (intro conjI allI impI)
  show "TestColliderPair a b = False \<longleftrightarrow>
      (\<exists>i<15. axis_disjoint a b (GetCollisionVectors a b testVec_fresh ! i))"
    by (auto simp: TestColliderPair_def TestColliderPair_loop_iff)
  show "length (GetCollisionVectors a b testVec_fresh) = 15"
    by (simp add: GetCollisionVectors_fresh length_candidate_axes)
  fix i :: nat
  assume "i < 15" "axis_disjoint a b (testVec ! i)"
  then show "TestColliderPair_loop a b testVec i = False"
    by (auto simp: TestColliderPair_loop_iff)
qed

text \<open>The cube from (0,0,0) to (2,2,2) and its copy at (3,0,0): on the first axis the
  intervals are [0,2] and [3,5].\<close>

theorem C1_witness:
  "TestColliderPair (box2 (V3 0 0 0)) (box2 (V3 3 0 0)) = False \<and>
   axis_disjoint (box2 (V3 0 0 0)) (box2 (V3 3 0 0))
     (GetCollisionVectors (box2 (V3 0 0 0)) (box2 (V3 3 0 0)) testVec_fresh ! 0) \<and>
   TestColliderPair_loop (box2 (V3 0 0 0)) (box2 (V3 3 0 0)) aligned_axes 0 = False"
proof -
  have d: "axis_disjoint (box2 (V3 0 0 0)) (box2 (V3 3 0 0))
      (GetCollisionVectors (box2 (V3 0 0 0)) (box2 (V3 3 0 0)) testVec_fresh ! 0)"
    using ex_apart_disjoint by simp
  have lt: "(0::nat) < 15" by simp
  from C1_TestColliderPair_separating_axis
    [of "box2 (V3 0 0 0)" "box2 (V3 3 0 0)" aligned_axes] d lt
  show ?thesis by (metis axes_box(1))
qed

text \<open>
  C2, at two cubes of side 200 in the same place: the colliders overlap, every axis has
  overlap -200, and the function returns the zero vector instead of an axis scaled by -200.
\<close>

theorem C2_large_penetration_returns_zero:
  "TestColliderPair (box200 (V3 0 0 0)) (box200 (V3 0 0 0)) = True \<and>
   map (axis_overlap (box200 (V3 0 0 0)) (box200 (V3 0 0 0)))
       (GetCollisionVectors (box200 (V3 0 0 0)) (box200 (V3 0 0 0)) testVec_fresh) =
     [- 200, - 200, - 200, - 200, - 200, - 200, - 200, - 200, - 200, - 200, - 200, - 200, - 200,
      - 200, - 200] \<and>
   GetCollisionCorrection (box200 (V3 0 0 0)) (box200 (V3 0 0 0)) = Vector3Zero"
proof (intro conjI)
  show "TestColliderPair (box200 (V3 0 0 0)) (box200 (V3 0 0 0)) = True"
    using TestColliderPair_nonzero_overlaps [of "box200 (V3 0 0 0)" "box200 (V3 0 0 0)"]
    by (simp add: all_less_15 ov_big)
  show "map (axis_overlap (box200 (V3 0 0 0)) (box200 (V3 0 0 0)))
       (GetCollisionVectors (box200 (V3 0 0 0)) (box200 (V3 0 0 0)) testVec_fresh) =
     [- 200, - 200, - 200, - 200, - 200, - 200, - 200, - 200, - 200, - 200, - 200, - 200, - 200,
      - 200, - 200]"
    using ex_big_overlaps by simp
  show "GetCollisionCorrection (box200 (V3 0 0 0)) (box200 (V3 0 0 0)) = Vector3Zero"
    by (rule GetCollisionCorrection_none_below_100) (simp add: all_less_15 ov_big)
qed

text \<open>
  C3.  For every collider made by \<^verbatim>\<open>CreateCollider\<close> and every sequence of calls to
  \<^verbatim>\<open>SetColliderRotation\<close>, \<^verbatim>\<open>AddColliderRotation\<close>, \<^verbatim>\<open>SetColliderTranslation\<close> and
  \<^verbatim>\<open>AddColliderTranslation\<close>, after the last call (hence after each call, every prefix being
  a sequence) each world vertex is the local vertex moved by the current rotation matrix
  and then by the current translation matrix; both arrays keep their 8 entries.
\<close>

theorem C3_world_vertices_follow_transform:
  "vertGlobal (run_calls min3 max3 calls) =
     map (\<lambda>v. Vector3Transform (Vector3Transform v (matRotate (run_calls min3 max3 calls)))
                 (matTranslate (run_calls min3 max3 calls)))
         (vertLocal (run_calls min3 max3 calls)) \<and>
   length (vertLocal (run_calls min3 max3 calls)) = COLLIDER_VERTEX_COUNT \<and>
   length (vertGlobal (run_calls min3 max3 calls)) = COLLIDER_VERTEX_COUNT"
  using foldl_apply_call_invariant [OF CreateCollider_invariant, of min3 max3 calls]
  by (simp add: run_calls_def verts_consistent_def Collider_wf_def)

text \<open>
  C4, amended.  When \<^verbatim>\<open>GetCollisionCorrection\<close> returns a correction other than the zero
  vector, it is an axis of minimal absolute overlap scaled by the signed depth on that axis:
  if the minimum of \<open>a\<close>'s interval exceeds the minimum of \<open>b\<close>'s, the depth is
  \<open>b.max - a.min\<close>, which is positive (a push along the axis); otherwise the depth is
  \<open>b.min - a.max\<close>, which is negative (a push against the axis).
\<close>

theorem C4_depth_convention:
  assumes "GetCollisionCorrection a b \<noteq> Vector3Zero"
  shows "\<exists>j<15.
     (\<forall>k<15. \<bar>axis_overlap a b (GetCollisionVectors a b testVec_fresh ! j)\<bar>
                 \<le> \<bar>axis_overlap a b (GetCollisionVectors a b testVec_fresh ! k)\<bar>) \<and>
     (let v = GetCollisionVectors a b testVec_fresh ! j;
          apro = GetColliderProjectionBounds a v;
          bpro = GetColliderProjectionBounds b v
      in if v2x apro > v2x bpro
         then GetCollisionCorrection a b = Vector3Scale v (v2y bpro - v2x apro) \<and>
              0 < v2y bpro - v2x apro
         else GetCollisionCorrection a b = Vector3Scale v (v2x bpro - v2y apro) \<and>
              v2x bpro - v2y apro < 0)"
proof -
  obtain j where j: "j < 15"
    and nz: "axis_overlap a b (GetCollisionVectors a b testVec_fresh ! j) \<noteq> 0"
    and mn: "\<forall>k<15. \<bar>axis_overlap a b (GetCollisionVectors a b testVec_fresh ! j)\<bar>
                 \<le> \<bar>axis_overlap a b (GetCollisionVectors a b testVec_fresh ! k)\<bar>"
    and res: "GetCollisionCorrection a b =
       Vector3Scale (GetCollisionVectors a b testVec_fresh ! j)
         (axis_overlap a b (GetCollisionVectors a b testVec_fresh ! j))"
    using GetCollisionCorrection_nonzero_chosen [OF assms] by blast
  let ?v = "GetCollisionVectors a b testVec_fresh ! j"
  have nz': "GetOverlap (GetColliderProjectionBounds a ?v) (GetColliderProjectionBounds b ?v) \<noteq> 0"
    using nz by (simp add: axis_overlap_def)
  have "if v2x (GetColliderProjectionBounds a ?v) > v2x (GetColliderProjectionBounds b ?v)
     then GetCollisionCorrection a b =
            Vector3Scale ?v (v2y (GetColliderProjectionBounds b ?v) - v2x (GetColliderProjectionBounds a ?v)) \<and>
          0 < v2y (GetColliderProjectionBounds b ?v) - v2x (GetColliderProjectionBounds a ?v)
     else GetCollisionCorrection a b =
            Vector3Scale ?v (v2x (GetColliderProjectionBounds b ?v) - v2y (GetColliderProjectionBounds a ?v)) \<and>
          v2x (GetColliderProjectionBounds b ?v) - v2y (GetColliderProjectionBounds a ?v) < 0"
    using GetOverlap_sign(2,3) [OF nz'] res by (simp add: axis_overlap_def)
  then show ?thesis
    using j mn by (auto simp: Let_def)
qed

text \<open>The claim as stated has the directions the other way round.  The cube at (1,0,0)
  against the cube at the origin: on the first axis \<open>a\<close>'s minimum 1 exceeds \<open>b\<close>'s minimum 0,
  and the correction is (1,0,0), the axis scaled by \<open>b.max - a.min = 1\<close>, which is not
  negative.\<close>

theorem C4_counterexample:
  "v2x (GetColliderProjectionBounds (box2 (V3 1 0 0)) (V3 1 0 0))
     > v2x (GetColliderProjectionBounds (box2 (V3 0 0 0)) (V3 1 0 0)) \<and>
   GetCollisionVectors (box2 (V3 1 0 0)) (box2 (V3 0 0 0)) testVec_fresh ! 0 = V3 1 0 0 \<and>
   GetCollisionCorrection (box2 (V3 1 0 0)) (box2 (V3 0 0 0)) =
     Vector3Scale (V3 1 0 0)
       (v2y (GetColliderProjectionBounds (box2 (V3 0 0 0)) (V3 1 0 0))
        - v2x (GetColliderProjectionBounds (box2 (V3 1 0 0)) (V3 1 0 0))) \<and>
   \<not> (v2y (GetColliderProjectionBounds (box2 (V3 0 0 0)) (V3 1 0 0))
        - v2x (GetColliderProjectionBounds (box2 (V3 1 0 0)) (V3 1 0 0)) < 0) \<and>
   GetCollisionCorrection (box2 (V3 1 0 0)) (box2 (V3 0 0 0)) = V3 1 0 0"
  by (simp add: proj_box2_x ex_push_correction nth_aligned_axes Vector3Scale_def)

text \<open>The same pair satisfies the hypothesis of the amended claim.\<close>

theorem C4_witness:
  "GetCollisionCorrection (box2 (V3 1 0 0)) (box2 (V3 0 0 0)) \<noteq> Vector3Zero \<and>
   (\<exists>j<15.
     (\<forall>k<15. \<bar>axis_overlap (box2 (V3 1 0 0)) (box2 (V3 0 0 0))
                    (GetCollisionVectors (box2 (V3 1 0 0)) (box2 (V3 0 0 0)) testVec_fresh ! j)\<bar>
                 \<le> \<bar>axis_overlap (box2 (V3 1 0 0)) (box2 (V3 0 0 0))
                    (GetCollisionVectors (box2 (V3 1 0 0)) (box2 (V3 0 0 0)) testVec_fresh ! k)\<bar>) \<and>
     (let v = GetCollisionVectors (box2 (V3 1 0 0)) (box2 (V3 0 0 0)) testVec_fresh ! j;
          apro = GetColliderProjectionBounds (box2 (V3 1 0 0)) v;
          bpro = GetColliderProjectionBounds (box2 (V3 0 0 0)) v
      in if v2x apro > v2x bpro
         then GetCollisionCorrection (box2 (V3 1 0 0)) (box2 (V3 0 0 0)) =
                Vector3Scale v (v2y bpro - v2x apro) \<and>
              0 < v2y bpro - v2x apro
         else GetCollisionCorrection (box2 (V3 1 0 0)) (box2 (V3 0 0 0)) =
                Vector3Scale v (v2x bpro - v2y apro) \<and>
              v2x bpro - v2y apro < 0))"
proof -
  have nz: "GetCollisionCorrection (box2 (V3 1 0 0)) (box2 (V3 0 0 0)) \<noteq> Vector3Zero"
    by (simp add: ex_push_correction Vector3Zero_def)
  from nz C4_depth_convention [OF nz] show ?thesis by (rule conjI)
qed

text \<open>
  C5.  If on one of the 15 candidate axes the projection intervals of the two colliders are
  disjoint, \<^verbatim>\<open>GetCollisionCorrection\<close> returns the zero vector, an ordinary value of its
  result type; the loop returns it on reaching that axis, whatever the running minimum,
  the running direction and the later axes are.
\<close>

theorem C5_disjoint_axis_returns_zero:
  assumes "i < 15"
  shows "(axis_disjoint a b (GetCollisionVectors a b testVec_fresh ! i) \<longrightarrow>
            GetCollisionCorrection a b = Vector3Zero) \<and>
         (axis_disjoint a b (testVec ! i) \<longrightarrow>
            GetCollisionCorrection_loop a b testVec i overlapMin overlapDir = Vector3Zero)"
proof (intro conjI impI)
  assume "axis_disjoint a b (GetCollisionVectors a b testVec_fresh ! i)"
  then have "axis_overlap a b (GetCollisionVectors a b testVec_fresh ! i) = 0"
    by (simp add: axis_disjoint_def axis_overlap_def GetOverlap_disjoint)
  then show "GetCollisionCorrection a b = Vector3Zero"
    using assms by (rule GetCollisionCorrection_zero_overlap [rotated])
next
  assume "axis_disjoint a b (testVec ! i)"
  then have "axis_overlap a b (testVec ! i) = 0"
    by (simp add: axis_disjoint_def axis_overlap_def GetOverlap_disjoint)
  then show "GetCollisionCorrection_loop a b testVec i overlapMin overlapDir = Vector3Zero"
    using assms by (simp add: corr_loop_step)
qed

text \<open>The same two cubes, one unit apart on the first axis.\<close>

theorem C5_witness:
  "axis_disjoint (box2 (V3 0 0 0)) (box2 (V3 3 0 0))
     (GetCollisionVectors (box2 (V3 0 0 0)) (box2 (V3 3 0 0)) testVec_fresh ! 0) \<and>
   GetCollisionCorrection (box2 (V3 0 0 0)) (box2 (V3 3 0 0)) = Vector3Zero \<and>
   GetCollisionCorrection_loop (box2 (V3 0 0 0)) (box2 (V3 3 0 0)) aligned_axes 0 100 Vector3Zero
     = Vector3Zero"
proof -
  have lt: "(0::nat) < 15" by simp
  have d: "axis_disjoint (box2 (V3 0 0 0)) (box2 (V3 3 0 0)) (aligned_axes ! 0)"
    by (rule ex_apart_disjoint)
  from C5_disjoint_axis_returns_zero
    [OF lt, of "box2 (V3 0 0 0)" "box2 (V3 3 0 0)" aligned_axes 100 Vector3Zero] d
  show ?thesis by simp
qed

text \<open>
  C6, at the cube from (-1,-1,-1) to (1,1,1) turned about the y axis by \<open>pi/4\<close> and the same
  cube turned by \<open>-pi/4\<close>.  The buffer has 15 axes.  The first face axis of the first collider
  and the third face axis of the second are opposite vectors, neither of them zero: their
  cross product is the zero vector, they are not equal, and the world x axis is not
  substituted, so entry 8 of the buffer is the zero vector.  On it both projections are
  [0,0], and the correction is the zero vector although the two boxes overlap.  Of the angle
  the proof uses only that its sine and cosine agree and are positive (lemma
  \<open>axes_opposite\<close>); in single precision the sine and the cosine of the number nearest to
  \<open>pi/4\<close> are one and the same number as well.
\<close>

theorem C6_antiparallel_axes_zero_axis:
  "length (GetCollisionVectors (turned_cube (pi / 4)) (turned_cube (- (pi / 4))) testVec_fresh) = 15 \<and>
   GetCollisionVectors (turned_cube (pi / 4)) (turned_cube (- (pi / 4))) testVec_fresh ! 0 \<noteq> Vector3Zero \<and>
   GetCollisionVectors (turned_cube (pi / 4)) (turned_cube (- (pi / 4))) testVec_fresh ! 5 =
     Vector3Negate (GetCollisionVectors (turned_cube (pi / 4)) (turned_cube (- (pi / 4))) testVec_fresh ! 0) \<and>
   Vector3CrossProduct
     (GetCollisionVectors (turned_cube (pi / 4)) (turned_cube (- (pi / 4))) testVec_fresh ! 0)
     (GetCollisionVectors (turned_cube (pi / 4)) (turned_cube (- (pi / 4))) testVec_fresh ! 5) = Vector3Zero \<and>
   GetCollisionVectors (turned_cube (pi / 4)) (turned_cube (- (pi / 4))) testVec_fresh ! 8 = Vector3Zero \<and>
   GetCollisionVectors (turned_cube (pi / 4)) (turned_cube (- (pi / 4))) testVec_fresh ! 8 \<noteq> V3 1 0 0 \<and>
   TestColliderPair (turned_cube (pi / 4)) (turned_cube (- (pi / 4))) = True \<and>
   GetCollisionCorrection (turned_cube (pi / 4)) (turned_cube (- (pi / 4))) = Vector3Zero"
proof -
  let ?a = "turned_cube (pi / 4)" and ?b = "turned_cube (- (pi / 4))"
  note ax = axes_opposite [OF quarter_turn]
  have "axis_overlap ?a ?b (GetCollisionVectors ?a ?b testVec_fresh ! 8) = 0"
    unfolding ax by (rule axis_overlap_zero_axis)
  then have corr: "GetCollisionCorrection ?a ?b = Vector3Zero"
    by (rule GetCollisionCorrection_zero_overlap [rotated]) simp
  have len: "length (GetCollisionVectors ?a ?b testVec_fresh) = 15"
    by (simp add: GetCollisionVectors_fresh length_candidate_axes)
  show ?thesis
    using corr len turned_cubes_overlap [of "pi / 4" "- (pi / 4)"] quarter_turn(2)
    unfolding ax
    by (simp add: Vector3CrossProduct_def Vector3Zero_def Vector3Negate_def)
qed

text \<open>
  C7.  For every pair of colliders, \<^verbatim>\<open>TestColliderPair(a, b)\<close> equals
  \<^verbatim>\<open>TestColliderPair(b, a)\<close>: swapping the colliders swaps the two groups of face axes and
  negates every cross-product axis, which mirrors both projection intervals.
\<close>

theorem C7_TestColliderPair_symmetric: "TestColliderPair a b = TestColliderPair b a"
proof -
  obtain a0 a1 a2 where fa: "face_axes (matRotate a) = [a0, a1, a2]"
    by (simp add: face_axes_def)
  obtain b0 b1 b2 where fb: "face_axes (matRotate b) = [b0, b1, b2]"
    by (simp add: face_axes_def)
  note sw = axis_disjoint_cross_axis_swap [of a b]
  have "TestColliderPair b a \<longleftrightarrow> (\<forall>v\<in>set (candidate_axes b a). \<not> axis_disjoint a b v)"
    unfolding TestColliderPair_iff_candidate_axes [of b a] axis_disjoint_commute [of b a] ..
  also have "\<dots> \<longleftrightarrow> (\<forall>v\<in>set (candidate_axes a b). \<not> axis_disjoint a b v)"
    unfolding candidate_axes_def fa fb
    using sw [of a0 b0] sw [of a0 b1] sw [of a0 b2] sw [of a1 b0] sw [of a1 b1] sw [of a1 b2]
      sw [of a2 b0] sw [of a2 b1] sw [of a2 b2]
    by auto
  also have "\<dots> \<longleftrightarrow> TestColliderPair a b"
    by (simp add: TestColliderPair_iff_candidate_axes)
  finally show ?thesis by simp
qed

text \<open>
  C8, at two cubes of side 200, the second at (50,50,0).  The minimal absolute overlap is
  150, shared by the axes 0 and 1 (among others); the first of them is (1,0,0).  No axis is
  kept: the result is the zero vector, not (1,0,0) scaled by -150.
\<close>

theorem C8_tie_above_100_keeps_no_axis:
  "map (axis_overlap (box200 (V3 0 0 0)) (box200 (V3 50 50 0)))
       (GetCollisionVectors (box200 (V3 0 0 0)) (box200 (V3 50 50 0)) testVec_fresh) =
     [- 150, - 150, - 200, - 150, - 150, - 200, - 150, - 200, 150, - 200, - 150, - 150, - 150,
      150, - 150] \<and>
   GetCollisionVectors (box200 (V3 0 0 0)) (box200 (V3 50 50 0)) testVec_fresh ! 0 = V3 1 0 0 \<and>
   TestColliderPair (box200 (V3 0 0 0)) (box200 (V3 50 50 0)) = True \<and>
   GetCollisionCorrection (box200 (V3 0 0 0)) (box200 (V3 50 50 0)) = Vector3Zero \<and>
   GetCollisionCorrection (box200 (V3 0 0 0)) (box200 (V3 50 50 0))
     \<noteq> Vector3Scale (V3 1 0 0) (- 150)"
proof -
  let ?a = "box200 (V3 0 0 0)" and ?b = "box200 (V3 50 50 0)"
  have big: "\<forall>k<15. 100 \<le> \<bar>axis_overlap ?a ?b (GetCollisionVectors ?a ?b testVec_fresh ! k)\<bar>"
    unfolding all_less_15 by (simp add: ov_deep_tie)
  have zero: "GetCollisionCorrection ?a ?b = Vector3Zero"
    using big by (rule GetCollisionCorrection_none_below_100)
  have "\<forall>k<15. axis_overlap ?a ?b (GetCollisionVectors ?a ?b testVec_fresh ! k) \<noteq> 0"
    using big by fastforce
  then have "TestColliderPair ?a ?b"
    by (rule TestColliderPair_nonzero_overlaps)
  then show ?thesis
    using zero ex_deep_tie_overlaps
    by (simp add: nth_aligned_axes Vector3Scale_def Vector3Zero_def)
qed




text \<open>
  C10, amended.  If on some axis the projection intervals exactly touch -- the maximum of
  \<open>a\<close> equals the minimum of \<open>b\<close>, or the maximum of \<open>b\<close> equals the minimum of \<open>a\<close> where \<open>b\<close>'s
  interval is longer than a point or \<open>a\<close>'s interval is itself a point -- and on every other
  axis the intervals are not disjoint, then \<^verbatim>\<open>TestColliderPair\<close> returns true and
  \<^verbatim>\<open>GetCollisionCorrection\<close> returns the zero vector.
\<close>

theorem C10_exact_touch:
  assumes "i < 15"
    and "let apro = GetColliderProjectionBounds a (GetCollisionVectors a b testVec_fresh ! i);
             bpro = GetColliderProjectionBounds b (GetCollisionVectors a b testVec_fresh ! i)
         in v2y apro = v2x bpro \<or>
            (v2y bpro = v2x apro \<and> (v2x bpro < v2y bpro \<or> v2x apro = v2y apro))"
    and "\<forall>k<15. k \<noteq> i \<longrightarrow> \<not> axis_disjoint a b (GetCollisionVectors a b testVec_fresh ! k)"
  shows "TestColliderPair a b = True \<and> GetCollisionCorrection a b = Vector3Zero"
proof -
  let ?v = "GetCollisionVectors a b testVec_fresh ! i"
  note touch = GetOverlap_touch
    [OF GetColliderProjectionBounds_ordered [of a ?v] GetColliderProjectionBounds_ordered [of b ?v]
        assms(2) [unfolded Let_def]]
  have "\<not> axis_disjoint a b ?v"
    using touch(2) by (simp add: axis_disjoint_def)
  then have "\<forall>k<15. \<not> axis_disjoint a b (GetCollisionVectors a b testVec_fresh ! k)"
    using assms(3) by blast
  then have "TestColliderPair a b"
    by (simp add: TestColliderPair_def TestColliderPair_loop_iff)
  moreover have "GetCollisionCorrection a b = Vector3Zero"
    using assms(1) touch(1)
    by (intro GetCollisionCorrection_zero_overlap [of i]) (simp_all add: axis_overlap_def)
  ultimately show ?thesis by simp
qed

text \<open>
  The claim as stated fails where \<open>b\<close>'s interval is the single point at the minimum of a longer
  interval of \<open>a\<close>.  The plate, turned about the z axis by 1/2, has the edge \<open>x = 0, y = 0\<close> of
  the cube in its plane: on the fifth axis, the normal of the plate, the plate projects to
  the point 0 and the cube to an interval that starts at 0, so the plate's maximum equals
  the cube's minimum; no axis has disjoint intervals; \<^verbatim>\<open>GetOverlap\<close> is not 0 there, and the
  correction is (0, \<open>m1\<close>, 0), where \<open>m1\<close> is the sine that \<^verbatim>\<open>MatrixRotate\<close> stored in the plate's
  rotation matrix, a positive number.
\<close>

theorem C10_counterexample:
  "v2y (GetColliderProjectionBounds plate
          (GetCollisionVectors corner_cube plate testVec_fresh ! 4)) =
   v2x (GetColliderProjectionBounds corner_cube
          (GetCollisionVectors corner_cube plate testVec_fresh ! 4)) \<and>
   list_all (\<lambda>v. \<not> axis_disjoint corner_cube plate v)
     (GetCollisionVectors corner_cube plate testVec_fresh) \<and>
   TestColliderPair corner_cube plate = True \<and>
   GetCollisionCorrection corner_cube plate = V3 0 (m1 (matRotate plate)) 0 \<and>
   0 < m1 (matRotate plate) \<and>
   GetCollisionCorrection corner_cube plate \<noteq> Vector3Zero"
proof -
  have ax4: "plate_axes ! 4 = V3 (- sin (1 / 2)) (cos (1 / 2)) 0" by (simp add: plate_axes_def)
  have "TestColliderPair corner_cube plate"
    using ex_plate_not_disjoint
    by (simp add: TestColliderPair_iff_candidate_axes candidate_axes_plate list_all_iff)
  then show ?thesis
    using ex_plate_not_disjoint sin_half
    by (simp add: ax4 proj_plate proj_corner_cube ex_plate_correction plate_sine Vector3Zero_def)
qed

text \<open>Two cubes of side 2 face to face, in both orders.\<close>

theorem C10_witness:
  "v2y (GetColliderProjectionBounds (box2 (V3 0 0 0)) (aligned_axes ! 0)) = 2 \<and>
   v2x (GetColliderProjectionBounds (box2 (V3 2 0 0)) (aligned_axes ! 0)) = 2 \<and>
   TestColliderPair (box2 (V3 0 0 0)) (box2 (V3 2 0 0)) = True \<and>
   GetCollisionCorrection (box2 (V3 0 0 0)) (box2 (V3 2 0 0)) = Vector3Zero \<and>
   TestColliderPair (box2 (V3 2 0 0)) (box2 (V3 0 0 0)) = True \<and>
   GetCollisionCorrection (box2 (V3 2 0 0)) (box2 (V3 0 0 0)) = Vector3Zero"
proof -
  let ?a = "box2 (V3 0 0 0)" and ?b = "box2 (V3 2 0 0)"
  have lt: "(0::nat) < 15" by simp
  have pa: "GetColliderProjectionBounds ?a (aligned_axes ! 0) = \<lparr>v2x = 0, v2y = 2\<rparr>"
    and pb: "GetColliderProjectionBounds ?b (aligned_axes ! 0) = \<lparr>v2x = 2, v2y = 4\<rparr>"
    unfolding nth_aligned_axes box2_def proj_aabb by simp_all
  have touch: "let apro = GetColliderProjectionBounds ?a (GetCollisionVectors ?a ?b testVec_fresh ! 0);
             bpro = GetColliderProjectionBounds ?b (GetCollisionVectors ?a ?b testVec_fresh ! 0)
         in v2y apro = v2x bpro \<or>
            (v2y bpro = v2x apro \<and> (v2x bpro < v2y bpro \<or> v2x apro = v2y apro))"
    by (simp add: pa pb)
  have touch': "let apro = GetColliderProjectionBounds ?b (GetCollisionVectors ?b ?a testVec_fresh ! 0);
             bpro = GetColliderProjectionBounds ?a (GetCollisionVectors ?b ?a testVec_fresh ! 0)
         in v2y apro = v2x bpro \<or>
            (v2y bpro = v2x apro \<and> (v2x bpro < v2y bpro \<or> v2x apro = v2y apro))"
    by (simp add: pa pb)
  have others: "\<forall>k<15. k \<noteq> 0 \<longrightarrow>
      \<not> axis_disjoint ?a ?b (GetCollisionVectors ?a ?b testVec_fresh ! k)"
    using ex_touch_not_disjoint(1) by simp
  have others': "\<forall>k<15. k \<noteq> 0 \<longrightarrow>
      \<not> axis_disjoint ?b ?a (GetCollisionVectors ?b ?a testVec_fresh ! k)"
    using ex_touch_not_disjoint(2) by simp
  from C10_exact_touch [OF lt touch others] C10_exact_touch [OF lt touch' others']
  show ?thesis
    by (simp add: pa pb)
qed

end
